theory Spec2Isabelle
  imports Main "HOL-Library.Word"
begin

section \<open>JavaScript values\<close>

text \<open>
  Request bodies, query strings and gateway responses are JSON documents. The handlers
  only test such values for truthiness, compare them with \<open>===\<close>, read their
  properties and interpolate them into template literals. A number is kept as the text
  \<open>String(n)\<close> prints for it (\<open>0\<close> for both zeros, exponent form from
  \<open>1e21\<close>): two numbers are equal exactly when they print alike, and the handlers
  never compute with them.
\<close>

datatype jsval =
    JUndefined
  | JNull
  | JBool bool
  | JNum string
  | JStr string
  | JArr "jsval list"
  | JObj "(string \<times> jsval) list"

text \<open>\<open>!v\<close> is \<open>\<not> truthy v\<close>.\<close>

fun truthy :: "jsval \<Rightarrow> bool" where
  "truthy JUndefined = False"
| "truthy JNull = False"
| "truthy (JBool b) = b"
| "truthy (JNum t) = (t \<noteq> ''0'' \<and> t \<noteq> ''NaN'')"
| "truthy (JStr s) = (s \<noteq> [])"
| "truthy (JArr xs) = True"
| "truthy (JObj fs) = True"

fun nullish :: "jsval \<Rightarrow> bool" where
  "nullish JUndefined = True"
| "nullish JNull = True"
| "nullish v = False"

text \<open>\<open>a || b\<close>\<close>

definition js_or :: "jsval \<Rightarrow> jsval \<Rightarrow> jsval" where
  "js_or a b = (if truthy a then a else b)"

text \<open>
  \<open>v.k\<close> for a \<open>v\<close> that is neither \<open>undefined\<close> nor \<open>null\<close>
  (there the read throws a TypeError, which every caller below checks first with
  \<open>nullish\<close>; \<open>req.query\<close> is always an object). A parsed object has each
  name once; a primitive and an array have none of the names the handlers read (no
  handler reads \<open>length\<close> or an index).
\<close>

fun field :: "jsval \<Rightarrow> string \<Rightarrow> jsval" where
  "field (JObj fs) k = (case map_of fs k of None \<Rightarrow> JUndefined | Some v \<Rightarrow> v)"
| "field v k = JUndefined"

text \<open>\<open>v?.k\<close>\<close>

definition opt_field :: "jsval \<Rightarrow> string \<Rightarrow> jsval" where
  "opt_field v k = (if nullish v then JUndefined else field v k)"

text \<open>
  \<open>a === b\<close>. Two objects (or arrays) are equal only when they are the same
  reference; the handlers compare a value of one request with a stored primitive or a
  literal, never an object with itself.
\<close>

fun strict_eq :: "jsval \<Rightarrow> jsval \<Rightarrow> bool" where
  "strict_eq (JObj fs) b = False"
| "strict_eq (JArr xs) b = False"
| "strict_eq a b = (a = b)"

text \<open>
  The digit characters of \<open>0 .. 15\<close> (with \<open>digit_val\<close> reading one back),
  and the decimal digits of a natural number as \<open>String(n)\<close> prints them
  (\<open>Date.now()\<close> is far below \<open>1e21\<close>).
\<close>

definition hex_digits :: string where
  "hex_digits = ''0123456789abcdef''"

definition digit_char :: "nat \<Rightarrow> char" where
  "digit_char d = hex_digits ! (d mod 16)"

definition digit_val :: "char \<Rightarrow> nat" where
  "digit_val c = length (takeWhile (\<lambda>x. x \<noteq> c) hex_digits)"

fun dec :: "nat \<Rightarrow> string" where
  "dec n = (if n < 10 then [digit_char n] else dec (n div 10) @ [digit_char (n mod 10)])"

declare dec.simps [simp del]

text \<open>
  The string a template literal \<open>`${v}`\<close> interpolates, \<open>None\<close> where the
  conversion throws a TypeError. An array prints its elements joined by commas, with
  \<open>undefined\<close> and \<open>null\<close> elements empty. A parsed object prints as
  \<open>[object Object]\<close>, unless it has a property of its own named \<open>toString\<close>:
  no JSON value is callable, so the conversion finds no method that returns a primitive
  and throws.
\<close>

fun join_comma :: "string list \<Rightarrow> string" where
  "join_comma [] = []"
| "join_comma [x] = x"
| "join_comma (x # y # ys) = x @ '','' @ join_comma (y # ys)"

fun to_str :: "jsval \<Rightarrow> string option" where
  "to_str JUndefined = Some ''undefined''"
| "to_str JNull = Some ''null''"
| "to_str (JBool b) = Some (if b then ''true'' else ''false'')"
| "to_str (JNum t) = Some t"
| "to_str (JStr s) = Some s"
| "to_str (JArr xs) =
     map_option join_comma (those (map (\<lambda>x. if nullish x then Some [] else to_str x) xs))"
| "to_str (JObj fs) =
     (if ''toString'' \<in> set (map fst fs) then None else Some ''[object Object]'')"

text \<open>
  \<open>crypto.randomBytes(6).toString('hex')\<close>: the six bytes are the 48-bit word
  \<open>w\<close>, most significant byte first; each byte prints as two hexadecimal digits.
\<close>

definition hex12 :: "48 word \<Rightarrow> string" where
  "hex12 w = map (\<lambda>i. digit_char (unat (drop_bit (4 * i) w) mod 16)) (rev [0 ..< 12])"

section \<open>Maps and sets of the runtime\<close>

text \<open>
  A \<open>Map\<close> keeps its entries in insertion order and compares keys with SameValueZero;
  \<open>set\<close> on a key that is present replaces the value where it stands. A \<open>Set\<close>
  is the list of its members in insertion order.
\<close>

fun same_value_zero :: "jsval \<Rightarrow> jsval \<Rightarrow> bool" where
  "same_value_zero (JObj fs) b = False"
| "same_value_zero (JArr xs) b = False"
| "same_value_zero a b = (a = b)"

type_synonym 'v jsmap = "(jsval \<times> 'v) list"

fun map_get :: "'v jsmap \<Rightarrow> jsval \<Rightarrow> 'v option" where
  "map_get [] k = None"
| "map_get ((k', v) # m) k = (if same_value_zero k' k then Some v else map_get m k)"

definition map_has :: "'v jsmap \<Rightarrow> jsval \<Rightarrow> bool" where
  "map_has m k = (map_get m k \<noteq> None)"

fun map_set :: "'v jsmap \<Rightarrow> jsval \<Rightarrow> 'v \<Rightarrow> 'v jsmap" where
  "map_set [] k v = [(k, v)]"
| "map_set ((k', v') # m) k v =
     (if same_value_zero k' k then (k', v) # m else (k', v') # map_set m k v)"

definition map_delete :: "'v jsmap \<Rightarrow> jsval \<Rightarrow> 'v jsmap" where
  "map_delete m k = filter (\<lambda>(k', v). \<not> same_value_zero k' k) m"

definition set_has :: "jsval list \<Rightarrow> jsval \<Rightarrow> bool" where
  "set_has xs x = list_ex (\<lambda>y. same_value_zero y x) xs"

definition set_add :: "jsval list \<Rightarrow> jsval \<Rightarrow> jsval list" where
  "set_add xs x = (if set_has xs x then xs else xs @ [x])"

section \<open>Environment, responses and mail\<close>

text \<open>
  \<open>process.env\<close>: a variable is unset or a string. What the process cannot decide
  is an argument of each handler: the clock (\<open>Date.now()\<close>), the random bytes, the
  answer of the payment gateway to one HTTP call (its response data, or the error axios
  throws) and whether the mail transporter accepts a mail.
\<close>

record config =
  CASHFREE_APP_ID :: "string option"
  CASHFREE_SECRET_KEY :: "string option"
  RAZORPAY_KEY_ID :: "string option"
  RAZORPAY_SECRET :: "string option"
  EMAIL_USER :: "string option"

definition env_truthy :: "string option \<Rightarrow> bool" where
  "env_truthy v = (case v of None \<Rightarrow> False | Some s \<Rightarrow> s \<noteq> [])"

definition env_val :: "string option \<Rightarrow> jsval" where
  "env_val v = (case v of None \<Rightarrow> JUndefined | Some s \<Rightarrow> JStr s)"

text \<open>
  An exception: a TypeError with the engine's message (V8's wording), or the error of
  the HTTP client with the upstream response data (\<open>error.response?.data\<close>,
  \<open>undefined\<close> without a response) and its message.
\<close>

datatype js_error = TypeError string | RequestError jsval string

definition quoted :: "string \<Rightarrow> string" where
  "quoted s = [CHR 0x27] @ s @ [CHR 0x27]"

definition nullish_name :: "jsval \<Rightarrow> string" where
  "nullish_name v = (if v = JNull then ''null'' else ''undefined'')"

text \<open>\<open>const { name } = req.body\<close> on a body that is \<open>undefined\<close> or \<open>null\<close>.\<close>

definition cannot_destructure :: "string \<Rightarrow> jsval \<Rightarrow> js_error" where
  "cannot_destructure name v =
     TypeError (''Cannot destructure property '' @ quoted name @ '' of '' @ quoted ''req.body''
                @ '' as it is '' @ nullish_name v @ ''.'')"

text \<open>\<open>v.name\<close> on a \<open>v\<close> that is \<open>undefined\<close> or \<open>null\<close>.\<close>

definition cannot_read :: "string \<Rightarrow> jsval \<Rightarrow> js_error" where
  "cannot_read name v =
     TypeError (''Cannot read properties of '' @ nullish_name v @ '' (reading '' @ quoted name
                @ '')'')"

text \<open>\<open>v.name = ...\<close> on a \<open>v\<close> that is \<open>undefined\<close>.\<close>

definition cannot_set :: "string \<Rightarrow> js_error" where
  "cannot_set name =
     TypeError (''Cannot set properties of undefined (setting '' @ quoted name @ '')'')"

text \<open>A template literal over a value that \<open>to_str\<close> cannot print.\<close>

definition not_primitive :: js_error where
  "not_primitive = TypeError ''Cannot convert object to primitive value''"

text \<open>\<open>error.response?.data?.message || error.message\<close>\<close>

fun error_details :: "js_error \<Rightarrow> jsval" where
  "error_details (TypeError m) = js_or JUndefined (JStr m)"
| "error_details (RequestError d m) = js_or (opt_field d ''message'') (JStr m)"

record response =
  status :: nat
  body :: jsval

definition json :: "jsval \<Rightarrow> response" where
  "json b = \<lparr>status = 200, body = b\<rparr>"

definition status_json :: "nat \<Rightarrow> jsval \<Rightarrow> response" where
  "status_json c b = \<lparr>status = c, body = b\<rparr>"

text \<open>
  A mail handed to \<open>transporter.sendMail\<close>. The HTML is a fixed template; only the
  strings interpolated into it are kept, in the order they appear.
\<close>

record mail =
  mail_from :: jsval
  mail_to :: jsval
  subject :: string
  html_values :: "string list"

text \<open>The mails the transporter has accepted, oldest first.\<close>

record mailbox =
  outbox :: "mail list"

text \<open>
  \<open>try { await sendMail(a); await sendMail(b); } catch { }\<close>: the second mail is
  handed over only after the first was accepted; a refusal is logged and swallowed.
\<close>

definition send_pair ::
  "(mail \<Rightarrow> bool) \<Rightarrow> mail \<Rightarrow> mail \<Rightarrow> 'a mailbox_scheme \<Rightarrow> 'a mailbox_scheme \<times> bool" where
  "send_pair mailer a b s =
     (if mailer a then
        (if mailer b then (s\<lparr>outbox := outbox s @ [a, b]\<rparr>, True)
         else (s\<lparr>outbox := outbox s @ [a]\<rparr>, False))
      else (s, False))"

text \<open>
  What a confirmation adds to the outbox: nothing when one of the two mail bodies cannot
  be built; otherwise the registrant's mail if the transporter accepts it, and after it
  the admin's mail if the transporter accepts that too.
\<close>

definition handed_over :: "(mail \<Rightarrow> bool) \<Rightarrow> mail option \<Rightarrow> mail option \<Rightarrow> mail list" where
  "handed_over mailer um am =
     (case um of
        None \<Rightarrow> []
      | Some u \<Rightarrow>
          (case am of
             None \<Rightarrow> []
           | Some a \<Rightarrow> if mailer u then (if mailer a then [u, a] else [u]) else []))"

text \<open>
  In front of every route stand the CORS check and \<open>bodyParser.json()\<close>. The origin
  callback is the server's own; a request it refuses, and a body the parser refuses
  (malformed or not an object: 400, too large: 413), are answered by the framework's
  error handler with the error's status, 500 when it has none, and never reach a route.
  Otherwise the route sees \<open>req.body\<close>, which is \<open>undefined\<close> when the request
  carried no JSON body. The text of the framework's error page is not modelled.
\<close>

datatype body_parse = Refused nat | Body jsval

record request =
  origin :: "string option"
  payload :: body_parse

definition framework_error :: "nat \<Rightarrow> response" where
  "framework_error c = \<lparr>status = c, body = JUndefined\<rparr>"

section \<open>The Cashfree server\<close>

text \<open>The origin callback of the CORS middleware (\<open>!origin || allowedOrigins.includes(origin)\<close>).\<close>

definition allowedOrigins :: "string list" where
  "allowedOrigins = [''https://inspiringshereen.vercel.app'', ''http://localhost:5173'']"

definition cors_origin :: "string option \<Rightarrow> bool" where
  "cors_origin org = (case org of None \<Rightarrow> True | Some a \<Rightarrow> a = [] \<or> a \<in> set allowedOrigins)"

text \<open>
  One entry of \<open>registrations\<close>. A property the object does not have yet
  (\<open>orderId\<close> before an order is created, \<open>transactionId\<close> before the
  payment is confirmed) reads as \<open>undefined\<close>.
\<close>

record user_data =
  fullName :: jsval
  email :: jsval
  phone :: jsval

record registration = user_data +
  timestamp :: nat
  paymentConfirmed :: bool
  orderId :: jsval
  transactionId :: jsval

record cf_state = mailbox +
  registrations :: "registration jsmap"
  confirmedPayments :: "jsval list"

definition cf_init :: cf_state where
  "cf_init = \<lparr>outbox = [], registrations = [], confirmedPayments = []\<rparr>"

definition user_subject :: string where
  "user_subject = ''Your Registration is Confirmed! - Inspiring Shereen Masterclass''"

definition admin_subject :: string where
  "admin_subject = ''New Registration - Inspiring Shereen Masterclass''"

text \<open>
  The two mails of \<open>sendConfirmationEmails\<close>. Their HTML bodies are template literals
  built before the \<open>try\<close> block: the registrant's interpolates \<open>fullName\<close>, the
  admin's \<open>fullName\<close>, \<open>email\<close>, \<open>phone\<close>, the reference id and the
  transaction id. A value that cannot be printed makes the function throw before any
  mail is handed over (\<open>None\<close>); the handler's catch block then answers.
\<close>

definition userMailOptions :: "config \<Rightarrow> registration \<Rightarrow> mail option" where
  "userMailOptions cfg userData =
     (case to_str (fullName userData) of
        None \<Rightarrow> None
      | Some fn \<Rightarrow>
          Some \<lparr>mail_from = env_val (EMAIL_USER cfg), mail_to = email userData,
                subject = user_subject, html_values = [fn]\<rparr>)"

definition adminMailOptions :: "config \<Rightarrow> registration \<Rightarrow> jsval \<Rightarrow> jsval \<Rightarrow> mail option" where
  "adminMailOptions cfg userData referenceId txn =
     (case those (map to_str [fullName userData, email userData, phone userData,
                              referenceId, txn]) of
        None \<Rightarrow> None
      | Some vs \<Rightarrow>
          Some \<lparr>mail_from = env_val (EMAIL_USER cfg), mail_to = env_val (EMAIL_USER cfg),
                subject = admin_subject, html_values = vs\<rparr>)"

definition sendConfirmationEmails ::
  "config \<Rightarrow> (mail \<Rightarrow> bool) \<Rightarrow> registration \<Rightarrow> jsval \<Rightarrow> jsval \<Rightarrow> cf_state
     \<Rightarrow> (cf_state \<times> bool) option" where
  "sendConfirmationEmails cfg mailer userData referenceId txn s =
     (case userMailOptions cfg userData of
        None \<Rightarrow> None
      | Some userMail \<Rightarrow>
          (case adminMailOptions cfg userData referenceId txn of
             None \<Rightarrow> None
           | Some adminMail \<Rightarrow> Some (send_pair mailer userMail adminMail s)))"

text \<open>\<open>POST /api/register\<close>. Destructuring \<open>req.body\<close> throws when there is no body.\<close>

definition paymentDetails :: jsval where
  "paymentDetails =
     JObj [(''upiId'', JStr ''9494100110@yesbank''), (''name'', JStr ''Inspiring Shereen''),
           (''amount'', JStr ''99''), (''currency'', JStr ''INR'')]"

definition register :: "cf_state \<Rightarrow> jsval \<Rightarrow> 48 word \<Rightarrow> nat \<Rightarrow> cf_state \<times> response" where
  "register s req_body rnd now =
     (if nullish req_body then
        (s, status_json 500 (JObj [(''error'', JStr ''Something went wrong'')]))
      else
        let fullName = field req_body ''fullName'';
            email = field req_body ''email'';
            phone = field req_body ''phone''
        in
          if \<not> truthy fullName \<or> \<not> truthy email \<or> \<not> truthy phone then
            (s, status_json 400 (JObj [(''error'', JStr ''All fields are required'')]))
          else
            let referenceId = JStr (hex12 rnd);
                s' = s\<lparr>registrations := map_set (registrations s) referenceId
                        \<lparr>fullName = fullName, email = email, phone = phone, timestamp = now,
                         paymentConfirmed = False, orderId = JUndefined,
                         transactionId = JUndefined\<rparr>\<rparr>
            in (s', json (JObj [(''success'', JBool True), (''referenceId'', referenceId),
                                (''paymentDetails'', paymentDetails)])))"

text \<open>
  \<open>POST /api/create-payment-order\<close>. \<open>post_orders\<close> is the gateway's answer to
  \<open>axios.post(`${CASHFREE_BASE_URL}/orders`, orderData, ...)\<close>. \<open>has\<close> and
  \<open>get\<close> are one lookup here: \<open>has\<close> is false exactly when \<open>get\<close> finds
  nothing. \<open>ref\<close> is the reference id as the template literals print it. The order
  id is stored before the response object is built, so a response without data ends in
  the catch block with the order id stored.
\<close>

definition order_failed :: "js_error \<Rightarrow> response" where
  "order_failed e =
     status_json 500 (JObj [(''error'', JStr ''Failed to create payment order''),
                            (''details'', error_details e)])"

definition config_error :: response where
  "config_error = status_json 500 (JObj [(''error'', JStr ''Payment gateway configuration error'')])"

text \<open>\<open>`ORDER_${referenceId}_${Date.now()}`\<close>\<close>

definition new_order_id :: "string \<Rightarrow> nat \<Rightarrow> string" where
  "new_order_id ref now = ''ORDER_'' @ ref @ ''_'' @ dec now"

text \<open>The \<open>orderData\<close> object sent to the gateway (99 INR).\<close>

definition order_data :: "jsval \<Rightarrow> string \<Rightarrow> registration \<Rightarrow> jsval \<Rightarrow> jsval" where
  "order_data referenceId ref userData oid =
     JObj [(''order_id'', oid), (''order_amount'', JNum ''99''),
           (''order_currency'', JStr ''INR''),
           (''customer_details'', JObj
              [(''customer_id'', referenceId),
               (''customer_name'', fullName userData),
               (''customer_email'', email userData),
               (''customer_phone'', phone userData)]),
           (''order_meta'', JObj
              [(''return_url'', JStr
                 (''https://inspiringshereen.vercel.app/payment?order_id={order_id}&reference_id=''
                  @ ref))])]"

definition create_payment_order ::
  "config \<Rightarrow> cf_state \<Rightarrow> jsval \<Rightarrow> nat \<Rightarrow> (jsval \<Rightarrow> js_error + jsval) \<Rightarrow> cf_state \<times> response" where
  "create_payment_order cfg s req_body now post_orders =
     (if nullish req_body then (s, order_failed (cannot_destructure ''referenceId'' req_body))
      else
        let referenceId = field req_body ''referenceId'' in
          if \<not> truthy referenceId then
            (s, status_json 400 (JObj [(''error'', JStr ''Reference ID is required'')]))
          else
            case map_get (registrations s) referenceId of
              None \<Rightarrow> (s, status_json 404 (JObj [(''error'', JStr ''Invalid reference ID'')]))
            | Some userData \<Rightarrow>
                (case to_str referenceId of
                   None \<Rightarrow> (s, order_failed not_primitive)
                 | Some ref \<Rightarrow>
                     let orderId = JStr (new_order_id ref now);
                         orderData = order_data referenceId ref userData orderId
                     in
                       if \<not> env_truthy (CASHFREE_APP_ID cfg)
                          \<or> \<not> env_truthy (CASHFREE_SECRET_KEY cfg)
                       then (s, config_error)
                       else
                         (case post_orders orderData of
                            Inl e \<Rightarrow> (s, order_failed e)
                          | Inr data \<Rightarrow>
                              let s' = s\<lparr>registrations :=
                                          map_set (registrations s) referenceId
                                            (userData\<lparr>orderId := orderId\<rparr>)\<rparr>
                              in
                                if nullish data then
                                  (s', order_failed (cannot_read ''payment_session_id'' data))
                                else
                                  (s', json (JObj
                                     [(''success'', JBool True), (''orderId'', orderId),
                                      (''paymentSessionId'', field data ''payment_session_id''),
                                      (''orderToken'', field data ''order_token''),
                                      (''appId'', env_val (CASHFREE_APP_ID cfg))])))))"

text \<open>
  The loop of the status check and of the webhook: the key of the first entry, in
  insertion order, whose \<open>orderId\<close> is \<open>===\<close> the one looked for; \<open>null\<close> when
  there is none.
\<close>

fun find_reference :: "registration jsmap \<Rightarrow> jsval \<Rightarrow> jsval" where
  "find_reference [] oid = JNull"
| "find_reference ((key, v) # rest) oid =
     (if strict_eq (orderId v) oid then key else find_reference rest oid)"

text \<open>
  \<open>GET /api/check-payment-status\<close>. \<open>get_order\<close> is the gateway's answer to
  \<open>axios.get(`${CASHFREE_BASE_URL}/orders/${orderId}`, ...)\<close>, asked with the order
  id as the template literal prints it. The record is updated and the identifier added
  to the confirmed set before \<open>sendConfirmationEmails\<close> is called, so when that throws
  the catch block answers 500 with the confirmation stored.
\<close>

definition status_failed :: "js_error \<Rightarrow> response" where
  "status_failed e =
     status_json 500 (JObj [(''error'', JStr ''Failed to check payment status''),
                            (''details'', error_details e)])"

definition check_payment_status ::
  "config \<Rightarrow> cf_state \<Rightarrow> jsval \<Rightarrow> (string \<Rightarrow> js_error + jsval) \<Rightarrow> (mail \<Rightarrow> bool)
     \<Rightarrow> cf_state \<times> response" where
  "check_payment_status cfg s req_query get_order mailer =
     (let oid = field req_query ''orderId'' in
        if \<not> truthy oid then
          (s, status_json 400 (JObj [(''error'', JStr ''Order ID is required'')]))
        else if \<not> env_truthy (CASHFREE_APP_ID cfg) \<or> \<not> env_truthy (CASHFREE_SECRET_KEY cfg)
        then (s, config_error)
        else
          case to_str oid of
            None \<Rightarrow> (s, status_failed not_primitive)
          | Some oid_text \<Rightarrow>
          (case get_order oid_text of
            Inl e \<Rightarrow> (s, status_failed e)
          | Inr data \<Rightarrow>
              if nullish data then (s, status_failed (cannot_read ''order_status'' data))
              else
                let ok = json (JObj [(''success'', JBool True),
                                     (''orderStatus'', field data ''order_status''),
                                     (''paymentDetails'', data)])
                in
                  if strict_eq (field data ''order_status'') (JStr ''PAID'') then
                    let referenceId = find_reference (registrations s) oid in
                      if truthy referenceId then
                        (case map_get (registrations s) referenceId of
                           None \<Rightarrow> (s, status_failed (cannot_set ''paymentConfirmed''))
                         | Some userData \<Rightarrow>
                             let txn = js_or (field data ''cf_order_id'') (field data ''order_id'');
                                 userData' = userData\<lparr>paymentConfirmed := True,
                                                       transactionId := txn\<rparr>;
                                 s1 = s\<lparr>registrations :=
                                          map_set (registrations s) referenceId userData',
                                        confirmedPayments :=
                                          set_add (confirmedPayments s) referenceId\<rparr>
                             in
                               (case sendConfirmationEmails cfg mailer userData'
                                       referenceId txn s1 of
                                  None \<Rightarrow> (s1, status_failed not_primitive)
                                | Some (s2, sent) \<Rightarrow> (s2, ok)))
                      else (s, ok)
                  else (s, ok)))"

text \<open>\<open>POST /api/confirm-payment\<close>, the legacy confirmation.\<close>

definition confirm_failed :: response where
  "confirm_failed = status_json 500 (JObj [(''error'', JStr ''Something went wrong'')])"

definition confirm_payment ::
  "config \<Rightarrow> cf_state \<Rightarrow> jsval \<Rightarrow> (mail \<Rightarrow> bool) \<Rightarrow> cf_state \<times> response" where
  "confirm_payment cfg s req_body mailer =
     (if nullish req_body then (s, confirm_failed)
      else
        let referenceId = field req_body ''referenceId'';
            txn = field req_body ''transactionId''
        in
          if \<not> truthy referenceId \<or> \<not> truthy txn then
            (s, status_json 400
                  (JObj [(''error'', JStr ''Reference ID and Transaction ID are required'')]))
          else
            case map_get (registrations s) referenceId of
              None \<Rightarrow> (s, status_json 404 (JObj [(''error'', JStr ''Invalid reference ID'')]))
            | Some userData \<Rightarrow>
                let userData' = userData\<lparr>paymentConfirmed := True, transactionId := txn\<rparr>;
                    s1 = s\<lparr>registrations := map_set (registrations s) referenceId userData',
                           confirmedPayments := set_add (confirmedPayments s) referenceId\<rparr>
                in
                  (case sendConfirmationEmails cfg mailer userData' referenceId txn s1 of
                     None \<Rightarrow> (s1, confirm_failed)
                   | Some (s2, sent) \<Rightarrow>
                       (s2, json (JObj [(''success'', JBool True),
                                        (''referenceId'', referenceId)]))))"

text \<open>\<open>GET /api/check-payment\<close>\<close>

definition check_payment :: "cf_state \<Rightarrow> jsval \<Rightarrow> response" where
  "check_payment s req_query =
     (let referenceId = field req_query ''reference_id'' in
        if set_has (confirmedPayments s) referenceId then json (JObj [(''success'', JBool True)])
        else json (JObj [(''success'', JBool False)]))"

text \<open>
  \<open>POST /api/cashfree-webhook\<close>, the route handler. The signature check is commented
  out in the source. Reading \<open>webhookData.data\<close> throws when there is no body, and
  \<open>sendConfirmationEmails\<close> throws on a value it cannot print (after the
  confirmation is stored); the catch block answers 200 as well.
\<close>

definition webhook_ok :: response where
  "webhook_ok = status_json 200 (JObj [(''success'', JBool True)])"

definition webhook_error :: response where
  "webhook_error =
     status_json 200 (JObj [(''success'', JBool False),
                            (''error'', JStr ''Error processing webhook'')])"

definition cashfree_webhook ::
  "config \<Rightarrow> cf_state \<Rightarrow> jsval \<Rightarrow> (mail \<Rightarrow> bool) \<Rightarrow> cf_state \<times> response" where
  "cashfree_webhook cfg s webhookData mailer =
     (if nullish webhookData then (s, webhook_error)
      else if truthy (field webhookData ''data'') \<and>
              truthy (field (field webhookData ''data'') ''order'') then
        let order = field (field webhookData ''data'') ''order'';
            oid = field order ''order_id'';
            orderStatus = field order ''order_status''
        in
          if strict_eq orderStatus (JStr ''PAID'') then
            let referenceId = find_reference (registrations s) oid in
              if truthy referenceId then
                case map_get (registrations s) referenceId of
                  None \<Rightarrow> (s, webhook_error)
                | Some userData \<Rightarrow>
                    let txn = js_or (field order ''cf_order_id'') (field order ''order_id'');
                        userData' = userData\<lparr>paymentConfirmed := True, transactionId := txn\<rparr>;
                        s1 = s\<lparr>registrations := map_set (registrations s) referenceId userData',
                               confirmedPayments := set_add (confirmedPayments s) referenceId\<rparr>
                    in
                      (case sendConfirmationEmails cfg mailer userData' referenceId txn s1 of
                         None \<Rightarrow> (s1, webhook_error)
                       | Some (s2, sent) \<Rightarrow> (s2, webhook_ok))
              else (s, webhook_ok)
          else (s, webhook_ok)
      else (s, webhook_ok))"

text \<open>
  The webhook endpoint as a request meets it: the CORS check, the body parser, then the
  route handler.
\<close>

definition webhook_endpoint ::
  "config \<Rightarrow> cf_state \<Rightarrow> request \<Rightarrow> (mail \<Rightarrow> bool) \<Rightarrow> cf_state \<times> response" where
  "webhook_endpoint cfg s req mailer =
     (if \<not> cors_origin (origin req) then (s, framework_error 500)
      else
        case payload req of
          Refused c \<Rightarrow> (s, framework_error c)
        | Body b \<Rightarrow> cashfree_webhook cfg s b mailer)"

text \<open>
  The requests that change the state, each with what the environment answers while it
  is handled, and the state after a sequence of them. Every reachable state of the
  Cashfree server is \<open>cf_run cfg cf_init es\<close> for some \<open>es\<close>.
\<close>

datatype cf_event =
    Register jsval "48 word" nat
  | CreatePaymentOrder jsval nat "jsval \<Rightarrow> js_error + jsval"
  | CheckPaymentStatus jsval "string \<Rightarrow> js_error + jsval" "mail \<Rightarrow> bool"
  | ConfirmPayment jsval "mail \<Rightarrow> bool"
  | CashfreeWebhook jsval "mail \<Rightarrow> bool"

fun cf_step :: "config \<Rightarrow> cf_state \<Rightarrow> cf_event \<Rightarrow> cf_state" where
  "cf_step cfg s (Register b rnd now) = fst (register s b rnd now)"
| "cf_step cfg s (CreatePaymentOrder b now gw) = fst (create_payment_order cfg s b now gw)"
| "cf_step cfg s (CheckPaymentStatus q gw mailer) = fst (check_payment_status cfg s q gw mailer)"
| "cf_step cfg s (ConfirmPayment b mailer) = fst (confirm_payment cfg s b mailer)"
| "cf_step cfg s (CashfreeWebhook b mailer) = fst (cashfree_webhook cfg s b mailer)"

definition cf_run :: "config \<Rightarrow> cf_state \<Rightarrow> cf_event list \<Rightarrow> cf_state" where
  "cf_run cfg s es = foldl (cf_step cfg) s es"

text \<open>
  What every reachable state satisfies: a key is a string of twelve characters, and an
  order id that is stored has the form \<open>ORDER_<key>_<clock>\<close>.
\<close>

definition order_of_key :: "string \<Rightarrow> jsval \<Rightarrow> bool" where
  "order_of_key h oid = (oid = JUndefined \<or> (\<exists>n. oid = JStr (new_order_id h n)))"

definition store_inv :: "registration jsmap \<Rightarrow> bool" where
  "store_inv m =
     (\<forall>(k, r) \<in> set m. \<exists>h. k = JStr h \<and> length h = 12 \<and> order_of_key h (orderId r))"

definition cf_inv :: "cf_state \<Rightarrow> bool" where
  "cf_inv s = store_inv (registrations s)"



section \<open>The Razorpay server\<close>

text \<open>
  \<open>userDataStore\<close> maps a gateway order id to the registrant's data;
  \<open>successfulPayments\<close> holds payment ids. A record has no payment flag: it is
  deleted once its mails have been handed over.
\<close>

record rzp_state = mailbox +
  successfulPayments :: "jsval list"
  userDataStore :: "user_data jsmap"

definition rzp_init :: rzp_state where
  "rzp_init = \<lparr>outbox = [], successfulPayments = [], userDataStore = []\<rparr>"

definition something_went_wrong :: jsval where
  "something_went_wrong = JObj [(''error'', JStr ''Something went wrong'')]"

definition pay_block :: "string \<Rightarrow> string \<Rightarrow> jsval" where
  "pay_block label m =
     JObj [(''name'', JStr label), (''instruments'', JArr [JObj [(''method'', JStr m)]])]"

definition checkout_config :: jsval where
  "checkout_config =
     JObj [(''display'', JObj
       [(''blocks'', JObj
          [(''upi'', pay_block ''Pay via UPI'' ''upi''),
           (''card'', pay_block ''Pay via Card'' ''card''),
           (''netbanking'', pay_block ''Pay via Netbanking'' ''netbanking''),
           (''wallet'', pay_block ''Pay via Wallet'' ''wallet'')]),
        (''sequence'', JArr [JStr ''block.upi'', JStr ''block.card'',
                             JStr ''block.netbanking'', JStr ''block.wallet'']),
        (''preferences'', JObj [(''show_default_blocks'', JBool False)])])]"

text \<open>
  \<open>POST /api/register\<close>. \<open>orders_create\<close> is the answer of
  \<open>razorpay.orders.create(options)\<close>.
\<close>

definition rzp_register ::
  "config \<Rightarrow> rzp_state \<Rightarrow> jsval \<Rightarrow> nat \<Rightarrow> (jsval \<Rightarrow> js_error + jsval) \<Rightarrow> rzp_state \<times> response" where
  "rzp_register cfg s req_body now orders_create =
     (if nullish req_body then (s, status_json 500 something_went_wrong)
      else
        let fullName = field req_body ''fullName'';
            email = field req_body ''email'';
            phone = field req_body ''phone''
        in
          if \<not> truthy fullName \<or> \<not> truthy email \<or> \<not> truthy phone then
            (s, status_json 400 (JObj [(''error'', JStr ''All fields are required'')]))
          else
            let options = JObj [(''amount'', JNum ''9900''), (''currency'', JStr ''INR''),
                                (''receipt'', JStr (''receipt_'' @ dec now)),
                                (''payment_capture'', JNum ''1'')]
            in
              case orders_create options of
                Inl e \<Rightarrow> (s, status_json 500 something_went_wrong)
              | Inr order \<Rightarrow>
                  if nullish order then (s, status_json 500 something_went_wrong)
                  else
                    let s' = s\<lparr>userDataStore :=
                                map_set (userDataStore s) (field order ''id'')
                                  \<lparr>fullName = fullName, email = email, phone = phone\<rparr>\<rparr>
                    in (s', json (JObj
                          [(''orderId'', field order ''id''), (''amount'', field order ''amount''),
                           (''key_id'', env_val (RAZORPAY_KEY_ID cfg)),
                           (''prefill'', JObj [(''name'', fullName), (''email'', email),
                                               (''contact'', phone)]),
                           (''config'', checkout_config)])))"

text \<open>
  The two mails of verify-payment, built inside \<open>if (userData)\<close> and before the
  inner \<open>try\<close>: a registrant's value that cannot be printed throws into the outer
  catch block. The payment id and the order id have been printed before, for the signed
  message.
\<close>

definition rzp_userMailOptions :: "config \<Rightarrow> user_data \<Rightarrow> mail option" where
  "rzp_userMailOptions cfg userData =
     (case to_str (fullName userData) of
        None \<Rightarrow> None
      | Some fn \<Rightarrow>
          Some \<lparr>mail_from = env_val (EMAIL_USER cfg), mail_to = email userData,
                subject = user_subject, html_values = [fn]\<rparr>)"

definition rzp_adminMailOptions :: "config \<Rightarrow> user_data \<Rightarrow> jsval \<Rightarrow> jsval \<Rightarrow> mail option" where
  "rzp_adminMailOptions cfg userData payment_id order_id =
     (case those (map to_str [fullName userData, email userData, phone userData,
                              payment_id, order_id]) of
        None \<Rightarrow> None
      | Some vs \<Rightarrow>
          Some \<lparr>mail_from = env_val (EMAIL_USER cfg), mail_to = env_val (EMAIL_USER cfg),
                subject = admin_subject, html_values = vs\<rparr>)"

text \<open>
  \<open>POST /api/verify-payment\<close>. \<open>hmac\<close> stands for
  \<open>crypto.createHmac('sha256', key).update(msg).digest('hex')\<close>, a function of the key
  and the message; \<open>createHmac\<close> throws when the key is \<open>undefined\<close>, and the
  template literal for the signed message throws on an id it cannot print.
\<close>

definition invalid_signature :: response where
  "invalid_signature =
     status_json 400 (JObj [(''success'', JBool False), (''error'', JStr ''Invalid signature'')])"

definition verify_failed :: response where
  "verify_failed =
     status_json 500 (JObj [(''success'', JBool False), (''error'', JStr ''Something went wrong'')])"

text \<open>\<open>`${razorpay_order_id}|${razorpay_payment_id}`\<close>\<close>

definition signed_message :: "jsval \<Rightarrow> jsval \<Rightarrow> string option" where
  "signed_message order_id payment_id =
     (case to_str order_id of
        None \<Rightarrow> None
      | Some a \<Rightarrow> (case to_str payment_id of None \<Rightarrow> None | Some b \<Rightarrow> Some (a @ ''|'' @ b)))"

definition verify_payment ::
  "(string \<Rightarrow> string \<Rightarrow> string) \<Rightarrow> config \<Rightarrow> rzp_state \<Rightarrow> jsval \<Rightarrow> (mail \<Rightarrow> bool)
     \<Rightarrow> rzp_state \<times> response" where
  "verify_payment hmac cfg s req_body mailer =
     (if nullish req_body then (s, verify_failed)
      else
        let razorpay_payment_id = field req_body ''razorpay_payment_id'';
            razorpay_order_id = field req_body ''razorpay_order_id'';
            razorpay_signature = field req_body ''razorpay_signature''
        in
          case signed_message razorpay_order_id razorpay_payment_id of
            None \<Rightarrow> (s, verify_failed)
          | Some msg \<Rightarrow>
          (case RAZORPAY_SECRET cfg of
            None \<Rightarrow> (s, verify_failed)
          | Some secret \<Rightarrow>
              let generated_signature = JStr (hmac secret msg) in
                if \<not> strict_eq generated_signature razorpay_signature then (s, invalid_signature)
                else
                  let s1 = s\<lparr>successfulPayments :=
                              set_add (successfulPayments s) razorpay_payment_id\<rparr>
                  in
                    (case map_get (userDataStore s1) razorpay_order_id of
                       None \<Rightarrow> (s1, json (JObj [(''success'', JBool True)]))
                     | Some userData \<Rightarrow>
                         (case rzp_userMailOptions cfg userData of
                            None \<Rightarrow> (s1, verify_failed)
                          | Some userMail \<Rightarrow>
                              (case rzp_adminMailOptions cfg userData razorpay_payment_id
                                      razorpay_order_id of
                                 None \<Rightarrow> (s1, verify_failed)
                               | Some adminMail \<Rightarrow>
                                   let s2 = fst (send_pair mailer userMail adminMail s1);
                                       s3 = s2\<lparr>userDataStore :=
                                                map_delete (userDataStore s2) razorpay_order_id\<rparr>
                                   in (s3, json (JObj [(''success'', JBool True)])))))))"

text \<open>
  The signature of a request matches: the request has a body, its two ids can be
  printed, the secret is configured, and \<open>razorpay_signature\<close> is the string
  \<open>hmac secret (order id | payment id)\<close>.
\<close>

definition signature_matches :: "(string \<Rightarrow> string \<Rightarrow> string) \<Rightarrow> config \<Rightarrow> jsval \<Rightarrow> bool" where
  "signature_matches hmac cfg b =
     (\<not> nullish b \<and>
      (case signed_message (field b ''razorpay_order_id'') (field b ''razorpay_payment_id'') of
         None \<Rightarrow> False
       | Some msg \<Rightarrow>
           (case RAZORPAY_SECRET cfg of
              None \<Rightarrow> False
            | Some secret \<Rightarrow> field b ''razorpay_signature'' = JStr (hmac secret msg))))"

text \<open>\<open>GET /api/check-payment\<close>\<close>

definition rzp_check_payment :: "rzp_state \<Rightarrow> jsval \<Rightarrow> response" where
  "rzp_check_payment s req_query =
     (let paymentId = field req_query ''payment_id'' in
        if set_has (successfulPayments s) paymentId then json (JObj [(''success'', JBool True)])
        else json (JObj [(''success'', JBool False)]))"

section \<open>A sample run\<close>

text \<open>
  The scenario of the specification: one registrant, one order, a gateway that accepts
  the order and later reports it paid, and a transporter that accepts every mail.
\<close>

definition demo_config :: config where
  "demo_config =
     \<lparr>CASHFREE_APP_ID = Some ''app'', CASHFREE_SECRET_KEY = Some ''secret'',
      RAZORPAY_KEY_ID = Some ''rzp_key'', RAZORPAY_SECRET = Some ''rzp_secret'',
      EMAIL_USER = Some ''admin@x.com''\<rparr>"

definition demo_body :: jsval where
  "demo_body = JObj [(''fullName'', JStr ''A''), (''email'', JStr ''a@x.com''), (''phone'', JStr ''1'')]"

definition demo_ref :: jsval where
  "demo_ref = JStr ''abc123456789''"

definition demo_order :: jsval where
  "demo_order = JStr ''ORDER_abc123456789_1712345''"

definition accept_all :: "mail \<Rightarrow> bool" where
  "accept_all m = True"

definition gateway_accepts :: "jsval \<Rightarrow> js_error + jsval" where
  "gateway_accepts orderData =
     Inr (JObj [(''payment_session_id'', JStr ''session_1''), (''order_token'', JStr ''token_1'')])"

definition gateway_paid :: "string \<Rightarrow> js_error + jsval" where
  "gateway_paid oid =
     Inr (JObj [(''order_id'', JStr oid), (''cf_order_id'', JNum ''42''),
                (''order_status'', JStr ''PAID'')])"

definition paid_webhook :: jsval where
  "paid_webhook =
     JObj [(''data'', JObj [(''order'', JObj [(''order_id'', demo_order),
                                              (''order_status'', JStr ''PAID'')])])]"

definition demo_user :: registration where
  "demo_user =
     \<lparr>fullName = JStr ''A'', email = JStr ''a@x.com'', phone = JStr ''1'', timestamp = 1712000,
      paymentConfirmed = False, orderId = JUndefined, transactionId = JUndefined\<rparr>"

text \<open>The states after registering, after creating the order, and after the first poll.\<close>

definition demo_registered :: cf_state where
  "demo_registered =
     \<lparr>outbox = [], registrations = [(demo_ref, demo_user)], confirmedPayments = []\<rparr>"

definition demo_ordered :: cf_state where
  "demo_ordered =
     \<lparr>outbox = [], registrations = [(demo_ref, demo_user\<lparr>orderId := demo_order\<rparr>)],
      confirmedPayments = []\<rparr>"

definition demo_paid_user :: registration where
  "demo_paid_user =
     demo_user\<lparr>paymentConfirmed := True, orderId := demo_order, transactionId := JNum ''42''\<rparr>"

definition demo_user_mail :: mail where
  "demo_user_mail =
     \<lparr>mail_from = JStr ''admin@x.com'', mail_to = JStr ''a@x.com'', subject = user_subject,
      html_values = [''A'']\<rparr>"

definition demo_admin_mail :: "string \<Rightarrow> mail" where
  "demo_admin_mail txn =
     \<lparr>mail_from = JStr ''admin@x.com'', mail_to = JStr ''admin@x.com'', subject = admin_subject,
      html_values = [''A'', ''a@x.com'', ''1'', ''abc123456789'', txn]\<rparr>"

definition demo_paid :: cf_state where
  "demo_paid =
     \<lparr>outbox = [demo_user_mail, demo_admin_mail ''42''],
      registrations = [(demo_ref, demo_paid_user)],
      confirmedPayments = [demo_ref]\<rparr>"

text \<open>
  For the Razorpay server: a stand-in for the keyed hash (any function of key and
  message will do for a sample run), and a request signed with it.
\<close>

definition demo_hmac :: "string \<Rightarrow> string \<Rightarrow> string" where
  "demo_hmac k m = rev (k @ m)"

definition signed_request :: jsval where
  "signed_request =
     JObj [(''razorpay_payment_id'', JStr ''pay_1''), (''razorpay_order_id'', JStr ''order_1''),
           (''razorpay_signature'', JStr (demo_hmac ''rzp_secret'' ''order_1|pay_1''))]"

definition forged_request :: jsval where
  "forged_request =
     JObj [(''razorpay_payment_id'', JStr ''pay_1''), (''razorpay_order_id'', JStr ''order_1''),
           (''razorpay_signature'', JStr ''forged'')]"

text \<open>
  A registration is confirmed in a state: its record has \<open>paymentConfirmed\<close> set and
  a truthy \<open>transactionId\<close>, and its identifier is in the confirmed set.
\<close>

definition is_confirmed :: "cf_state \<Rightarrow> jsval \<Rightarrow> bool" where
  "is_confirmed s R =
     (case map_get (registrations s) R of
        None \<Rightarrow> False
      | Some r \<Rightarrow> paymentConfirmed r \<and> truthy (transactionId r)
                  \<and> set_has (confirmedPayments s) R)"

text \<open>The same without the condition on the transaction id.\<close>

definition is_paid :: "cf_state \<Rightarrow> jsval \<Rightarrow> bool" where
  "is_paid s R =
     (case map_get (registrations s) R of
        None \<Rightarrow> False
      | Some r \<Rightarrow> paymentConfirmed r \<and> set_has (confirmedPayments s) R)"

text \<open>
  The three confirming handlers share their middle part: the record \<open>r\<close> stored
  under \<open>R\<close> gets \<open>paymentConfirmed\<close> and the transaction id, \<open>R\<close> is added to
  the confirmed set, and \<open>sendConfirmationEmails\<close> runs. This is the state after it.
\<close>

definition confirmation ::
  "config \<Rightarrow> (mail \<Rightarrow> bool) \<Rightarrow> cf_state \<Rightarrow> jsval \<Rightarrow> registration \<Rightarrow> jsval \<Rightarrow> cf_state" where
  "confirmation cfg mailer s R r txn =
     s\<lparr>registrations :=
         map_set (registrations s) R (r\<lparr>paymentConfirmed := True, transactionId := txn\<rparr>),
       confirmedPayments := set_add (confirmedPayments s) R,
       outbox := outbox s @ handed_over mailer (userMailOptions cfg r)
                              (adminMailOptions cfg r R txn)\<rparr>"

text \<open>The random bytes drawn by the register requests of a sequence, latest first.\<close>

fun draws :: "cf_event list \<Rightarrow> 48 word list" where
  "draws [] = []"
| "draws (e # es) = (case e of Register b rnd now \<Rightarrow> [rnd] | _ \<Rightarrow> []) @ draws es"

definition second_body :: jsval where
  "second_body = JObj [(''fullName'', JStr ''B''), (''email'', JStr ''b@x.com''), (''phone'', JStr ''2'')]"

definition razorpay_order :: "jsval \<Rightarrow> js_error + jsval" where
  "razorpay_order options = Inr (JObj [(''id'', JStr ''order_1''), (''amount'', JNum ''9900'')])"


text \<open>
  Webhook requests: one from a foreign origin, one whose body the parser refuses, and
  one with a paid order that names no order id.
\<close>

definition foreign_request :: request where
  "foreign_request = \<lparr>origin = Some ''https://example.org'', payload = Body paid_webhook\<rparr>"

definition malformed_request :: request where
  "malformed_request = \<lparr>origin = None, payload = Refused 400\<rparr>"

definition gateway_request :: request where
  "gateway_request = \<lparr>origin = None, payload = Body paid_webhook\<rparr>"

definition orderless_webhook :: jsval where
  "orderless_webhook = JObj [(''data'', JObj [(''order'', JObj [(''order_status'', JStr ''PAID'')])])]"

definition unprintable :: jsval where
  "unprintable = JObj [(''toString'', JNum ''1'')]"

section \<open>Facts about the runtime model\<close>

lemma dec_examples: "dec 0 = ''0'' \<and> dec 1712345 = ''1712345''"
  by (simp add: dec.simps digit_char_def hex_digits_def)

lemma hex12_example: "hex12 0xabc123456789 = ''abc123456789''"
  by (simp add: hex12_def digit_char_def hex_digits_def upt_rec drop_bit_eq_div unat_div)

lemma to_str_examples:
  "to_str (JArr [JStr ''order_1'']) = Some ''order_1'' \<and>
   to_str (JArr [JStr ''a'', JNull, JArr [JNum ''1'', JNum ''2''], JObj []])
     = Some ''a,,1,2,[object Object]'' \<and>
   to_str (JNum ''1e+21'') = Some ''1e+21'' \<and>
   to_str (JObj [(''toString'', JNum ''1'')]) = None"
  by simp

lemma digit_cases:
  "d < 16 \<Longrightarrow> d = 0 \<or> d = 1 \<or> d = 2 \<or> d = 3 \<or> d = 4 \<or> d = 5 \<or> d = 6 \<or> d = 7
     \<or> d = 8 \<or> d = 9 \<or> d = 10 \<or> d = 11 \<or> d = 12 \<or> d = 13 \<or> d = 14 \<or> d = (15::nat)"
  by arith

lemma digit_val_char:
  assumes "d < 16"
  shows "digit_val (digit_char d) = d"
  using digit_cases[OF assms] by (elim disjE) (simp_all add: digit_char_def digit_val_def hex_digits_def)

lemma digit_char_inj: "d < 16 \<Longrightarrow> e < 16 \<Longrightarrow> digit_char d = digit_char e \<Longrightarrow> d = e"
  by (metis digit_val_char)

lemma dec_small: "n < 10 \<Longrightarrow> dec n = [digit_char n]"
  by (subst dec.simps) simp

lemma dec_large: "\<not> n < 10 \<Longrightarrow> dec n = dec (n div 10) @ [digit_char (n mod 10)]"
  by (subst dec.simps) simp

lemma dec_nonempty: "dec n \<noteq> []"
  by (cases "n < 10") (simp_all add: dec_small dec_large)

lemma dec_inj: "dec n = dec m \<Longrightarrow> n = m"
proof (induction n arbitrary: m rule: dec.induct)
  case (1 n)
  show ?case
  proof (cases "n < 10")
    case True
    note n = this
    show ?thesis
    proof (cases "m < 10")
      case True
      with n "1.prems" have "digit_char n = digit_char m" by (simp add: dec_small)
      with n True show ?thesis by (intro digit_char_inj) simp_all
    next
      case False
      with n "1.prems" have "dec (m div 10) = []" by (simp add: dec_small dec_large)
      then show ?thesis by (simp add: dec_nonempty)
    qed
  next
    case False
    note n = this
    show ?thesis
    proof (cases "m < 10")
      case True
      with n "1.prems" have "dec (n div 10) = []" by (simp add: dec_small dec_large)
      then show ?thesis by (simp add: dec_nonempty)
    next
      case False
      with n "1.prems" have a: "dec (n div 10) = dec (m div 10)"
        and b: "digit_char (n mod 10) = digit_char (m mod 10)"
        by (simp_all add: dec_large)
      from "1.IH"[OF n a] have "n div 10 = m div 10" .
      moreover from b have "n mod 10 = m mod 10" by (intro digit_char_inj) simp_all
      ultimately show ?thesis by (metis div_mult_mod_eq)
    qed
  qed
qed

lemma svz_eq: "same_value_zero a b \<Longrightarrow> a = b"
  by (cases a) auto

lemma strict_eq_eq: "strict_eq a b \<Longrightarrow> a = b"
  by (cases a) auto

lemma map_get_mem: "map_get m k = Some v \<Longrightarrow> (k, v) \<in> set m"
  by (induction m) (auto split: if_splits dest: svz_eq)

lemma set_map_set: "set (map_set m k v) \<subseteq> insert (k, v) (set m)"
  by (induction m) (auto dest: svz_eq split: if_splits)

lemma map_get_map_set:
  "map_get (map_set m x v) k = (if same_value_zero x k then Some v else map_get m k)"
  by (induction m) (auto dest: svz_eq)

lemma set_has_set_add: "set_has (set_add xs x) k = (set_has xs k \<or> same_value_zero x k)"
  by (auto simp: set_has_def set_add_def list_ex_iff dest: svz_eq)

text \<open>
  A handler's call of \<open>sendConfirmationEmails\<close> with its catch block: the state
  gains the mails handed over, and the answer depends on whether the call threw.
\<close>

lemma send_case:
  "(case sendConfirmationEmails cfg mailer u k t s1 of
      None \<Rightarrow> (s1, e)
    | Some (s2, sent) \<Rightarrow> (s2, r)) =
   (s1\<lparr>outbox := outbox s1 @ handed_over mailer (userMailOptions cfg u)
                               (adminMailOptions cfg u k t)\<rparr>,
    if sendConfirmationEmails cfg mailer u k t s1 = None then e else r)"
  by (simp add: sendConfirmationEmails_def send_pair_def handed_over_def
      split: option.split)

lemma order_key_unique:
  assumes "order_of_key h (JStr oid)" "order_of_key h' (JStr oid)"
    "length h = length h'"
  shows "h = h'"
proof -
  from assms(1) obtain n where "oid = ''ORDER_'' @ h @ ''_'' @ dec n"
    by (auto simp: order_of_key_def new_order_id_def)
  moreover from assms(2) obtain n' where "oid = ''ORDER_'' @ h' @ ''_'' @ dec n'"
    by (auto simp: order_of_key_def new_order_id_def)
  ultimately have "h @ (''_'' @ dec n) = h' @ (''_'' @ dec n')" by simp
  with assms(3) append_eq_append_conv[of h h' "''_'' @ dec n" "''_'' @ dec n'"]
  show ?thesis by blast
qed

lemma store_inv_mem:
  "store_inv m \<Longrightarrow> (k, r) \<in> set m
     \<Longrightarrow> \<exists>h. k = JStr h \<and> length h = 12 \<and> order_of_key h (orderId r)"
  by (auto simp: store_inv_def)

lemma store_inv_Cons:
  "store_inv ((k, v) # m) \<longleftrightarrow>
     (\<exists>h. k = JStr h \<and> length h = 12 \<and> order_of_key h (orderId v)) \<and> store_inv m"
  by (auto simp: store_inv_def)

lemma map_set_inv:
  assumes "store_inv m" "length h = 12" "order_of_key h (orderId v)"
  shows "store_inv (map_set m (JStr h) v)"
proof (unfold store_inv_def, intro ballI)
  fix x assume "x \<in> set (map_set m (JStr h) v)"
  with set_map_set[of m "JStr h" v] have "x = (JStr h, v) \<or> x \<in> set m" by blast
  then show "case x of (k, r) \<Rightarrow> \<exists>h. k = JStr h \<and> length h = 12 \<and> order_of_key h (orderId r)"
    using assms by (auto simp: store_inv_def)
qed

lemma find_reference_store:
  assumes "store_inv m" "map_get m R1 = Some r" "orderId r = JStr oid"
  shows "find_reference m (JStr oid) = R1"
  using assms
proof (induction m)
  case Nil
  then show ?case by simp
next
  case (Cons e m)
  obtain k v where e: "e = (k, v)" by (cases e)
  from Cons.prems(1) e obtain h where k: "k = JStr h" "length h = 12"
    and okv: "order_of_key h (orderId v)" and inv': "store_inv m"
    by (auto simp: store_inv_Cons)
  from store_inv_mem[OF Cons.prems(1) map_get_mem[OF Cons.prems(2)]] obtain h' where
    R1: "R1 = JStr h'" "length h' = 12" and okr: "order_of_key h' (orderId r)"
    by auto
  show ?case
  proof (cases "strict_eq (orderId v) (JStr oid)")
    case True
    then have "orderId v = JStr oid" by (rule strict_eq_eq)
    with okv okr Cons.prems(3) k R1 have "h = h'"
      by (intro order_key_unique[of h oid h']) simp_all
    with True e k R1 show ?thesis by simp
  next
    case False
    have "k \<noteq> R1"
    proof
      assume "k = R1"
      with Cons.prems(2) e k have "v = r" by simp
      with Cons.prems(3) False show False by simp
    qed
    with Cons.prems(2) e k have "map_get m R1 = Some r" by simp
    from Cons.IH[OF inv' this Cons.prems(3)] False e show ?thesis by simp
  qed
qed

lemma find_reference_linked:
  assumes "cf_inv s" "map_get (registrations s) R1 = Some r" "orderId r = JStr oid"
  shows "find_reference (registrations s) (JStr oid) = R1"
  using assms find_reference_store[of "registrations s" R1 r oid]
  by (simp add: cf_inv_def)

lemma map_set_inv_update:
  assumes "store_inv m" "map_get m k = Some u" "orderId v = orderId u"
  shows "store_inv (map_set m k v)"
proof -
  from store_inv_mem[OF assms(1) map_get_mem[OF assms(2)]] obtain h where
    "k = JStr h" "length h = 12" "order_of_key h (orderId u)" by auto
  with assms(1,3) show ?thesis by (simp add: map_set_inv)
qed

lemma map_set_inv_order:
  assumes "store_inv m" "map_get m k = Some u" "to_str k = Some ref"
    "orderId v = JStr (new_order_id ref n)"
  shows "store_inv (map_set m k v)"
proof -
  from store_inv_mem[OF assms(1) map_get_mem[OF assms(2)]] obtain h where
    h: "k = JStr h" "length h = 12" by auto
  with assms(3) have "ref = h" by simp
  with assms(4) have "order_of_key h (orderId v)"
    unfolding order_of_key_def by blast
  with h assms(1) show ?thesis by (simp add: map_set_inv)
qed

lemma length_hex12: "length (hex12 w) = 12"
  by (simp add: hex12_def)

lemma map_set_inv_new:
  assumes "store_inv m" "orderId v = JUndefined"
  shows "store_inv (map_set m (JStr (hex12 w)) v)"
  using assms by (intro map_set_inv) (simp_all add: length_hex12 order_of_key_def)

lemma inv_register: "cf_inv s \<Longrightarrow> cf_inv (fst (register s b rnd now))"
  by (simp add: register_def Let_def cf_inv_def map_set_inv_new)

lemma inv_create_payment_order:
  "cf_inv s \<Longrightarrow> cf_inv (fst (create_payment_order cfg s b now gw))"
  by (simp add: create_payment_order_def Let_def cf_inv_def map_set_inv_order
      split: option.split sum.split)

lemma inv_check_payment_status:
  "cf_inv s \<Longrightarrow> cf_inv (fst (check_payment_status cfg s q gw mailer))"
  by (simp add: check_payment_status_def Let_def cf_inv_def map_set_inv_update send_case
      split: option.split sum.split)

lemma inv_confirm_payment:
  "cf_inv s \<Longrightarrow> cf_inv (fst (confirm_payment cfg s b mailer))"
  by (simp add: confirm_payment_def Let_def cf_inv_def map_set_inv_update send_case
      split: option.split sum.split)

lemma inv_cashfree_webhook:
  "cf_inv s \<Longrightarrow> cf_inv (fst (cashfree_webhook cfg s b mailer))"
  by (simp add: cashfree_webhook_def Let_def cf_inv_def map_set_inv_update send_case
      split: option.split sum.split)

lemma inv_step: "cf_inv s \<Longrightarrow> cf_inv (cf_step cfg s e)"
  by (cases e)
    (simp_all add: inv_register inv_create_payment_order inv_check_payment_status
      inv_confirm_payment inv_cashfree_webhook)

lemma inv_run: "cf_inv s \<Longrightarrow> cf_inv (cf_run cfg s es)"
  unfolding cf_run_def by (induction es arbitrary: s) (simp_all add: inv_step)

lemma inv_init: "cf_inv cf_init"
  by (simp add: cf_inv_def cf_init_def store_inv_def)

lemma inv_reachable: "cf_inv (cf_run cfg cf_init es)"
  by (rule inv_run[OF inv_init])

lemma demo_registered_run:
  "cf_run demo_config cf_init [Register demo_body 0xabc123456789 1712000] = demo_registered"
  by (simp add: Let_def cf_run_def register_def cf_init_def demo_body_def demo_registered_def
      demo_ref_def demo_user_def hex12_def digit_char_def hex_digits_def upt_rec drop_bit_eq_div unat_div)

lemma demo_ordered_run:
  "cf_run demo_config demo_registered
     [CreatePaymentOrder (JObj [(''referenceId'', demo_ref)]) 1712345 gateway_accepts]
   = demo_ordered"
  by (simp add: Let_def cf_run_def create_payment_order_def demo_registered_def demo_ordered_def
      demo_ref_def demo_user_def demo_order_def demo_config_def env_truthy_def
      gateway_accepts_def new_order_id_def dec.simps digit_char_def hex_digits_def)

lemma demo_paid_run:
  "cf_run demo_config demo_ordered
     [CheckPaymentStatus (JObj [(''orderId'', demo_order)]) gateway_paid accept_all]
   = demo_paid"
proof -
  have "fst (check_payment_status demo_config demo_ordered (JObj [(''orderId'', demo_order)])
               gateway_paid accept_all) = demo_paid"
    unfolding check_payment_status_def Let_def send_case
    by (simp add: demo_ordered_def demo_paid_def demo_paid_user_def demo_order_def
        demo_ref_def gateway_paid_def js_or_def set_add_def set_has_def handed_over_def
        accept_all_def userMailOptions_def adminMailOptions_def demo_user_def
        demo_user_mail_def demo_admin_mail_def env_val_def
        demo_config_def[THEN arg_cong, of CASHFREE_APP_ID]
        demo_config_def[THEN arg_cong, of CASHFREE_SECRET_KEY]
        demo_config_def[THEN arg_cong, of EMAIL_USER] env_truthy_def)
  then show ?thesis by (simp add: cf_run_def)
qed

lemma demo_reachable:
  "cf_run demo_config cf_init
     [Register demo_body 0xabc123456789 1712000,
      CreatePaymentOrder (JObj [(''referenceId'', demo_ref)]) 1712345 gateway_accepts,
      CheckPaymentStatus (JObj [(''orderId'', demo_order)]) gateway_paid accept_all]
   = demo_paid"
  using demo_registered_run demo_ordered_run demo_paid_run
  by (simp add: cf_run_def)

text \<open>
  A registrant's name that cannot be printed: the body passes the validation of
  \<open>register\<close> (an object is truthy), and a later confirmation stores the payment,
  throws while the mails are built, hands over no mail and answers 500.
\<close>

lemma unprintable_name_example:
  "confirm_payment demo_config
     (fst (register cf_init
             (JObj [(''fullName'', unprintable), (''email'', JStr ''a@x.com''),
                    (''phone'', JStr ''1'')])
             0xabc123456789 1712000))
     (JObj [(''referenceId'', demo_ref), (''transactionId'', JStr ''T1'')]) accept_all =
   (\<lparr>outbox = [],
     registrations =
       [(demo_ref, \<lparr>fullName = unprintable, email = JStr ''a@x.com'', phone = JStr ''1'',
                    timestamp = 1712000, paymentConfirmed = True, orderId = JUndefined,
                    transactionId = JStr ''T1''\<rparr>)],
     confirmedPayments = [demo_ref]\<rparr>,
    confirm_failed)"
  unfolding confirm_payment_def register_def Let_def send_case
  by (simp add: cf_init_def demo_ref_def unprintable_def hex12_example set_add_def set_has_def
      handed_over_def sendConfirmationEmails_def userMailOptions_def)

lemma find_reference_none:
  "\<forall>(k, r) \<in> set m. \<not> strict_eq (orderId r) oid \<Longrightarrow> find_reference m oid = JNull"
  by (induction m) auto

section \<open>The status of a webhook answer\<close>

text \<open>
  C3 does not hold for every incoming request: the CORS check and the JSON body parser
  stand in front of the route. A webhook request that names a foreign origin is answered
  500 by the framework, and one whose body the parser refuses is answered 400; neither
  reaches the handler, and the state stays as it was.
\<close>

theorem webhook_refused_counterexample:
  "webhook_endpoint demo_config demo_ordered foreign_request accept_all
     = (demo_ordered, framework_error 500) \<and>
   status (snd (webhook_endpoint demo_config demo_ordered foreign_request accept_all)) = 500 \<and>
   webhook_endpoint demo_config demo_ordered malformed_request accept_all
     = (demo_ordered, framework_error 400) \<and>
   status (snd (webhook_endpoint demo_config demo_ordered malformed_request accept_all)) = 400"
  by (simp add: webhook_endpoint_def foreign_request_def malformed_request_def cors_origin_def
      allowedOrigins_def framework_error_def)

text \<open>
  C3 for the requests that reach the handler: when the origin check passes and the
  parser hands a body on (whatever it is, also none at all, where reading it throws and
  the catch block answers), then whatever the state, whether or not the mails can be
  built and whether or not they are accepted, the answer has status 200 and one of two
  fixed bodies: the error itself is not part of the answer.
\<close>

theorem webhook_answers_200:
  assumes "cors_origin (origin req)" and "payload req = Body b"
  shows "status (snd (webhook_endpoint cfg s req mailer)) = 200 \<and>
         snd (webhook_endpoint cfg s req mailer) \<in> {webhook_ok, webhook_error}"
  using assms
  by (simp add: webhook_endpoint_def cashfree_webhook_def Let_def send_case webhook_ok_def
      webhook_error_def status_json_def split: option.split)

theorem webhook_answers_200_witness:
  "cors_origin (origin gateway_request) \<and> payload gateway_request = Body paid_webhook \<and>
   status (snd (webhook_endpoint demo_config demo_ordered gateway_request accept_all)) = 200 \<and>
   status (snd (webhook_endpoint demo_config demo_ordered
                  \<lparr>origin = Some ''http://localhost:5173'', payload = Body JUndefined\<rparr>
                  accept_all)) = 200"
  using webhook_answers_200[of gateway_request paid_webhook demo_config demo_ordered accept_all]
    webhook_answers_200[of "\<lparr>origin = Some ''http://localhost:5173'', payload = Body JUndefined\<rparr>"
      JUndefined demo_config demo_ordered accept_all]
  by (simp add: gateway_request_def cors_origin_def allowedOrigins_def)

section \<open>A paid webhook that names no order\<close>

text \<open>
  C10 fails in the code. The handler looks for the first registration whose
  \<open>orderId\<close> is \<open>===\<close> the payload's \<open>order_id\<close>. A registration for which no
  order has been created has no \<open>orderId\<close>, and a payload whose order has the status
  \<open>'PAID'\<close> but no \<open>order_id\<close> has none either: \<open>undefined === undefined\<close>
  holds. In the sample run, right after the registration, such a webhook marks the
  registration paid with no transaction id, adds it to the confirmed set and hands two
  mails to the transporter.
\<close>

theorem webhook_without_order_id_confirms:
  "demo_registered = cf_run demo_config cf_init [Register demo_body 0xabc123456789 1712000] \<and>
   registrations demo_registered = [(demo_ref, demo_user)] \<and>
   orderId demo_user = JUndefined \<and>
   field (field (field orderless_webhook ''data'') ''order'') ''order_id'' = JUndefined \<and>
   cashfree_webhook demo_config demo_registered orderless_webhook accept_all =
     (\<lparr>outbox = [demo_user_mail, demo_admin_mail ''undefined''],
       registrations = [(demo_ref, demo_user\<lparr>paymentConfirmed := True\<rparr>)],
       confirmedPayments = [demo_ref]\<rparr>,
      webhook_ok)"
proof -
  have "cashfree_webhook demo_config demo_registered orderless_webhook accept_all =
     (\<lparr>outbox = [demo_user_mail, demo_admin_mail ''undefined''],
       registrations = [(demo_ref, demo_user\<lparr>paymentConfirmed := True\<rparr>)],
       confirmedPayments = [demo_ref]\<rparr>,
      webhook_ok)"
    unfolding cashfree_webhook_def Let_def send_case
    by (simp add: orderless_webhook_def demo_registered_def demo_ref_def demo_user_def
        js_or_def set_add_def set_has_def handed_over_def accept_all_def
        sendConfirmationEmails_def userMailOptions_def adminMailOptions_def
        demo_user_mail_def demo_admin_mail_def env_val_def
        demo_config_def[THEN arg_cong, of EMAIL_USER])
  then show ?thesis
    using demo_registered_run
    by (simp add: demo_registered_def demo_user_def orderless_webhook_def)
qed

theorem webhook_without_order_id_confirms_witness:
  "\<not> is_paid demo_registered demo_ref \<and>
   is_paid (fst (cashfree_webhook demo_config demo_registered orderless_webhook accept_all))
     demo_ref \<and>
   length (outbox (fst (cashfree_webhook demo_config demo_registered orderless_webhook
                          accept_all))) = 2 \<and>
   status (snd (cashfree_webhook demo_config demo_registered orderless_webhook accept_all)) = 200"
proof -
  note run = webhook_without_order_id_confirms[THEN conjunct2, THEN conjunct2, THEN conjunct2,
      THEN conjunct2]
  have "\<not> is_paid demo_registered demo_ref"
    by (simp add: is_paid_def demo_registered_def demo_ref_def demo_user_def)
  then show ?thesis
    unfolding run
    by (simp add: is_paid_def demo_ref_def demo_user_def set_has_def webhook_ok_def
        status_json_def)
qed

text \<open>
  What does hold: when the payload has no \<open>data.order\<close> (no payload at all, a falsy
  \<open>data\<close> or a falsy \<open>data.order\<close>), or the order's status is not \<open>'PAID'\<close>, or
  the handler's comparison fails for every stored registration, the state is returned
  as it was and the answer is 200.
\<close>

lemma webhook_frame:
  assumes "nullish b
     \<or> \<not> truthy (field b ''data'')
     \<or> \<not> truthy (field (field b ''data'') ''order'')
     \<or> field (field (field b ''data'') ''order'') ''order_status'' \<noteq> JStr ''PAID''
     \<or> (\<forall>(k, r) \<in> set (registrations s).
           \<not> strict_eq (orderId r) (field (field (field b ''data'') ''order'') ''order_id''))"
  shows "fst (cashfree_webhook cfg s b mailer) = s \<and>
         status (snd (cashfree_webhook cfg s b mailer)) = 200"
proof -
  let ?order = "field (field b ''data'') ''order''"
  have st: "strict_eq (field ?order ''order_status'') (JStr ''PAID'')
              \<Longrightarrow> field ?order ''order_status'' = JStr ''PAID''"
    by (rule strict_eq_eq)
  have none: "\<forall>(k, r) \<in> set (registrations s). \<not> strict_eq (orderId r) (field ?order ''order_id'')
     \<Longrightarrow> \<not> truthy (find_reference (registrations s) (field ?order ''order_id''))"
    by (simp add: find_reference_none)
  from assms st none show ?thesis
    by (auto simp: cashfree_webhook_def Let_def send_case webhook_ok_def webhook_error_def
        status_json_def split: option.split)
qed

section \<open>Registration requests with a missing field\<close>

text \<open>
  C6 does not hold for a request without a body: all three fields are missing, but
  destructuring \<open>req.body\<close> throws before the fields are tested, and the catch block
  answers 500, in both servers. The store is not touched.
\<close>

theorem register_without_body_counterexample:
  "register demo_registered JUndefined 0x000000000001 1712001 =
     (demo_registered, status_json 500 (JObj [(''error'', JStr ''Something went wrong'')])) \<and>
   status (snd (register demo_registered JUndefined 0x000000000001 1712001)) = 500 \<and>
   rzp_register demo_config rzp_init JUndefined 1712001 razorpay_order =
     (rzp_init, status_json 500 something_went_wrong) \<and>
   status (snd (rzp_register demo_config rzp_init JUndefined 1712001 razorpay_order)) = 500"
  by (simp add: register_def rzp_register_def status_json_def)

text \<open>
  C6 as the code has it: a register request in which one of \<open>fullName\<close>,
  \<open>email\<close> and \<open>phone\<close> is missing or empty (a missing property reads as
  \<open>undefined\<close>, and both \<open>undefined\<close> and the empty string are falsy) leaves the
  state as it was, in the Cashfree server and in the Razorpay server, which does not
  call the gateway either. The answer is 400 with \<open>All fields are required\<close> when the
  request has a body, and 500 when it has none.
\<close>

theorem register_validation:
  assumes "\<not> truthy (field b ''fullName'') \<or> \<not> truthy (field b ''email'')
           \<or> \<not> truthy (field b ''phone'')"
  shows "register s b rnd now =
           (s, if nullish b
               then status_json 500 (JObj [(''error'', JStr ''Something went wrong'')])
               else status_json 400 (JObj [(''error'', JStr ''All fields are required'')])) \<and>
         rzp_register cfg t b now orders_create =
           (t, if nullish b
               then status_json 500 something_went_wrong
               else status_json 400 (JObj [(''error'', JStr ''All fields are required'')])) \<and>
         status (snd (register s b rnd now)) = (if nullish b then 500 else 400) \<and>
         status (snd (rzp_register cfg t b now orders_create)) = (if nullish b then 500 else 400)"
  using assms by (auto simp: register_def rzp_register_def Let_def status_json_def)

theorem register_validation_witness:
  "\<not> truthy (field (JObj [(''fullName'', JStr ''B''), (''email'', JStr '''')]) ''email'') \<and>
   \<not> truthy (field (JObj [(''fullName'', JStr ''B''), (''email'', JStr '''')]) ''phone'') \<and>
   register demo_registered (JObj [(''fullName'', JStr ''B''), (''email'', JStr '''')])
     0x000000000001 1712001 =
     (demo_registered, status_json 400 (JObj [(''error'', JStr ''All fields are required'')])) \<and>
   rzp_register demo_config rzp_init (JObj [(''fullName'', JStr ''B''), (''email'', JStr '''')])
     1712001 gateway_accepts =
     (rzp_init, status_json 400 (JObj [(''error'', JStr ''All fields are required'')])) \<and>
   status (snd (register demo_registered JNull 0x000000000001 1712001)) = 500"
  using register_validation[of "JObj [(''fullName'', JStr ''B''), (''email'', JStr '''')]"
      demo_registered "0x000000000001" 1712001 demo_config rzp_init gateway_accepts]
    register_validation[of JNull demo_registered "0x000000000001" 1712001 demo_config rzp_init
      gateway_accepts]
  by (simp add: status_json_def)

section \<open>Signature check of verify-payment\<close>

text \<open>
  C2 does not hold for every request whose signature does not match: a request without
  a body, and one whose order id cannot be printed into the signed message, carry no
  matching signature, and both are answered 500, not 400. The state is unchanged.
\<close>

theorem verify_payment_counterexample:
  "\<not> signature_matches demo_hmac demo_config JUndefined \<and>
   verify_payment demo_hmac demo_config rzp_init JUndefined accept_all
     = (rzp_init, verify_failed) \<and>
   status (snd (verify_payment demo_hmac demo_config rzp_init JUndefined accept_all)) = 500 \<and>
   \<not> signature_matches demo_hmac demo_config
       (JObj [(''razorpay_payment_id'', JStr ''pay_1''), (''razorpay_order_id'', unprintable),
              (''razorpay_signature'', JStr ''forged'')]) \<and>
   status (snd (verify_payment demo_hmac demo_config rzp_init
       (JObj [(''razorpay_payment_id'', JStr ''pay_1''), (''razorpay_order_id'', unprintable),
              (''razorpay_signature'', JStr ''forged'')]) accept_all)) = 500"
  by (simp add: signature_matches_def verify_payment_def Let_def verify_failed_def
      status_json_def signed_message_def unprintable_def)

text \<open>
  C2 as the code has it: a verify-payment request is accepted (answered 200), and the
  state is changed at all, only when its signature matches, that is when
  \<open>razorpay_signature\<close> is the string \<open>hmac secret (order id | payment id)\<close>.
  Otherwise the state is returned as it was (no payment id is added, no record is
  touched, no mail is sent); the answer is 400 when the request has a body, both ids
  can be printed and the secret is configured, and 500 when not.
\<close>

theorem verify_payment_signature:
  "(status (snd (verify_payment hmac cfg s b mailer)) = 200 \<longrightarrow> signature_matches hmac cfg b) \<and>
   (fst (verify_payment hmac cfg s b mailer) \<noteq> s \<longrightarrow> signature_matches hmac cfg b) \<and>
   (\<not> signature_matches hmac cfg b \<longrightarrow>
      verify_payment hmac cfg s b mailer =
        (s, if nullish b
               \<or> signed_message (field b ''razorpay_order_id'') (field b ''razorpay_payment_id'')
                   = None
               \<or> RAZORPAY_SECRET cfg = None
            then verify_failed else invalid_signature)) \<and>
   status invalid_signature = 400 \<and> status verify_failed = 500"
proof -
  have a: "\<not> signature_matches hmac cfg b \<longrightarrow>
      verify_payment hmac cfg s b mailer =
        (s, if nullish b
               \<or> signed_message (field b ''razorpay_order_id'') (field b ''razorpay_payment_id'')
                   = None
               \<or> RAZORPAY_SECRET cfg = None
            then verify_failed else invalid_signature)"
    by (auto simp: signature_matches_def verify_payment_def Let_def split: option.split)
  have st: "status invalid_signature = 400" "status verify_failed = 500"
    by (simp_all add: invalid_signature_def verify_failed_def status_json_def)
  from a st have "status (snd (verify_payment hmac cfg s b mailer)) = 200
      \<longrightarrow> signature_matches hmac cfg b"
    by (auto split: if_splits)
  moreover from a have "fst (verify_payment hmac cfg s b mailer) \<noteq> s
      \<longrightarrow> signature_matches hmac cfg b"
    by auto
  ultimately show ?thesis using a st by blast
qed

theorem verify_payment_signature_witness:
  "\<not> signature_matches demo_hmac demo_config forged_request \<and>
   verify_payment demo_hmac demo_config rzp_init forged_request accept_all
     = (rzp_init, invalid_signature) \<and>
   status (snd (verify_payment demo_hmac demo_config rzp_init signed_request accept_all)) = 200 \<and>
   signature_matches demo_hmac demo_config signed_request"
proof -
  have f: "\<not> signature_matches demo_hmac demo_config forged_request"
    by (simp add: signature_matches_def forged_request_def signed_message_def demo_config_def
        demo_hmac_def)
  have m: "signed_message (field forged_request ''razorpay_order_id'')
             (field forged_request ''razorpay_payment_id'') = Some ''order_1|pay_1''"
    "\<not> nullish forged_request" "RAZORPAY_SECRET demo_config = Some ''rzp_secret''"
    by (simp_all add: forged_request_def signed_message_def demo_config_def)
  have ok: "status (snd (verify_payment demo_hmac demo_config rzp_init signed_request
              accept_all)) = 200"
    by (simp add: verify_payment_def Let_def signed_request_def signed_message_def
        demo_config_def rzp_init_def set_add_def set_has_def json_def)
  from verify_payment_signature[of demo_hmac demo_config rzp_init forged_request accept_all]
    verify_payment_signature[of demo_hmac demo_config rzp_init signed_request accept_all]
    f m ok
  show ?thesis by simp
qed

section \<open>A verified payment with no stored registrant\<close>

text \<open>
  C9: in the Razorpay server, a verify-payment request with a valid signature (the
  request has a body, its two ids print to the message \<open>msg\<close>, and its
  \<open>razorpay_signature\<close> is the string \<open>hmac secret msg\<close>) whose order id has no
  entry in \<open>userDataStore\<close> adds the payment id to \<open>successfulPayments\<close>, changes
  nothing else (no mail is sent, the outbox is as before) and is answered
  \<open>{success: true}\<close>; afterwards check-payment, asked for that payment id, answers
  \<open>{success: true}\<close>.
\<close>

theorem verify_payment_without_user_data:
  assumes "RAZORPAY_SECRET cfg = Some secret" and "\<not> nullish b"
    and "signed_message (field b ''razorpay_order_id'') (field b ''razorpay_payment_id'')
           = Some msg"
    and "field b ''razorpay_signature'' = JStr (hmac secret msg)"
    and "map_get (userDataStore s) (field b ''razorpay_order_id'') = None"
    and "same_value_zero (field b ''razorpay_payment_id'') (field q ''payment_id'')"
  shows "verify_payment hmac cfg s b mailer =
           (s\<lparr>successfulPayments :=
                 set_add (successfulPayments s) (field b ''razorpay_payment_id'')\<rparr>,
            json (JObj [(''success'', JBool True)])) \<and>
         outbox (fst (verify_payment hmac cfg s b mailer)) = outbox s \<and>
         rzp_check_payment (fst (verify_payment hmac cfg s b mailer)) q =
           json (JObj [(''success'', JBool True)])"
  using assms
  by (simp add: verify_payment_def Let_def rzp_check_payment_def set_has_set_add)

theorem verify_payment_without_user_data_witness:
  "signed_message (field signed_request ''razorpay_order_id'')
     (field signed_request ''razorpay_payment_id'') = Some ''order_1|pay_1'' \<and>
   map_get (userDataStore rzp_init) (field signed_request ''razorpay_order_id'') = None \<and>
   same_value_zero (field signed_request ''razorpay_payment_id'')
     (field (JObj [(''payment_id'', JStr ''pay_1'')]) ''payment_id'') \<and>
   verify_payment demo_hmac demo_config rzp_init signed_request accept_all =
     (rzp_init\<lparr>successfulPayments := [JStr ''pay_1'']\<rparr>, json (JObj [(''success'', JBool True)])) \<and>
   rzp_check_payment (fst (verify_payment demo_hmac demo_config rzp_init signed_request accept_all))
     (JObj [(''payment_id'', JStr ''pay_1'')]) = json (JObj [(''success'', JBool True)])"
  using verify_payment_without_user_data[of demo_config "''rzp_secret''" signed_request
      "''order_1|pay_1''" demo_hmac rzp_init "JObj [(''payment_id'', JStr ''pay_1'')]" accept_all]
  by (simp add: demo_config_def signed_request_def demo_hmac_def signed_message_def
      rzp_init_def set_add_def set_has_def rzp_check_payment_def)

lemma field_defined: "field v k \<noteq> JUndefined \<Longrightarrow> truthy v \<and> \<not> nullish v"
  by (cases v) auto

lemma svz_key: "same_value_zero a k \<Longrightarrow> same_value_zero k k"
  by (cases a) auto

lemma map_get_key: "map_get m k = Some v \<Longrightarrow> same_value_zero k k"
  by (induction m) (auto split: if_splits dest: svz_key)

lemma linked_key:
  assumes "cf_inv s" "map_get (registrations s) R1 = Some r"
  shows "\<exists>h. R1 = JStr h \<and> length h = 12"
  using store_inv_mem[OF _ map_get_mem[OF assms(2)]] assms(1) by (auto simp: cf_inv_def)

lemma linked_order_nonempty:
  assumes "cf_inv s" "map_get (registrations s) R1 = Some r" "orderId r = JStr oid"
  shows "oid \<noteq> []"
proof -
  from store_inv_mem[OF _ map_get_mem[OF assms(2)]] assms(1)
  obtain h where "order_of_key h (orderId r)" by (auto simp: cf_inv_def)
  with assms(3) show ?thesis by (auto simp: order_of_key_def new_order_id_def)
qed

lemma mails_of_updated:
  "userMailOptions cfg (r\<lparr>paymentConfirmed := True, transactionId := t\<rparr>) = userMailOptions cfg r"
  "adminMailOptions cfg (r\<lparr>paymentConfirmed := True, transactionId := t\<rparr>) k t' =
     adminMailOptions cfg r k t'"
  by (simp_all add: userMailOptions_def adminMailOptions_def split: option.split)

text \<open>The state after a status poll, a webhook and a legacy call that confirm.\<close>

lemma poll_paid_state:
  assumes "cf_inv s" "map_get (registrations s) R1 = Some r" "orderId r = JStr oid"
    and "field q ''orderId'' = JStr oid"
    and "env_truthy (CASHFREE_APP_ID cfg)" "env_truthy (CASHFREE_SECRET_KEY cfg)"
    and "get_order oid = Inr data" "field data ''order_status'' = JStr ''PAID''"
  shows "fst (check_payment_status cfg s q get_order mailer) =
     confirmation cfg mailer s R1 r (js_or (field data ''cf_order_id'') (field data ''order_id''))"
proof -
  from linked_key[OF assms(1,2)] have R1: "truthy R1" by auto
  from linked_order_nonempty[OF assms(1-3)] have oid: "truthy (JStr oid)" by simp
  from assms(8) have data: "\<not> nullish data" using field_defined[of data "''order_status''"] by simp
  have fr: "find_reference (registrations s) (JStr oid) = R1"
    by (rule find_reference_linked[OF assms(1-3)])
  show ?thesis
    using R1 oid data fr assms(2,4-8)
    by (simp add: check_payment_status_def Let_def send_case confirmation_def mails_of_updated)
qed

lemma webhook_paid_state:
  assumes "cf_inv s" "map_get (registrations s) R1 = Some r" "orderId r = JStr oid"
    and "field (field (field b ''data'') ''order'') ''order_id'' = JStr oid"
    and "field (field (field b ''data'') ''order'') ''order_status'' = JStr ''PAID''"
  shows "fst (cashfree_webhook cfg s b mailer) =
     confirmation cfg mailer s R1 r
       (js_or (field (field (field b ''data'') ''order'') ''cf_order_id'') (JStr oid))"
proof -
  let ?order = "field (field b ''data'') ''order''"
  from linked_key[OF assms(1,2)] have R1: "truthy R1" by auto
  from assms(5) have order: "truthy ?order" using field_defined[of ?order "''order_status''"] by simp
  then have "?order \<noteq> JUndefined" by auto
  then have d: "truthy (field b ''data'')" using field_defined[of "field b ''data''" "''order''"] by simp
  then have "field b ''data'' \<noteq> JUndefined" by auto
  then have b: "\<not> nullish b" using field_defined[of b "''data''"] by simp
  have fr: "find_reference (registrations s) (JStr oid) = R1"
    by (rule find_reference_linked[OF assms(1-3)])
  show ?thesis
    using R1 order d b fr assms(2,4,5)
    by (simp add: cashfree_webhook_def Let_def send_case confirmation_def mails_of_updated)
qed




lemma is_confirmed_confirmation:
  "same_value_zero R R \<Longrightarrow> truthy txn \<Longrightarrow> is_confirmed (confirmation cfg mailer s R r txn) R"
  by (simp add: is_confirmed_def confirmation_def map_get_map_set set_has_set_add)

section \<open>A paid order confirms its registration\<close>

text \<open>
  C4: in a reachable state, let registration \<open>R1\<close> be linked to the order id
  \<open>oid\<close> (its record's \<open>orderId\<close>). A status poll for \<open>oid\<close> to which the
  gateway answers with that order in status \<open>'PAID'\<close>, and a webhook that reports
  \<open>oid\<close> in status \<open>'PAID'\<close>, each leave \<open>R1\<close> confirmed: the record has
  \<open>paymentConfirmed\<close> true and a truthy \<open>transactionId\<close>, and \<open>R1\<close> is in the
  confirmed set.
\<close>

theorem paid_confirms_registration:
  assumes "s = cf_run cfg cf_init es"
    and "map_get (registrations s) R1 = Some r" and "orderId r = JStr oid"
    and "field q ''orderId'' = JStr oid"
    and "env_truthy (CASHFREE_APP_ID cfg)" and "env_truthy (CASHFREE_SECRET_KEY cfg)"
    and "get_order oid = Inr data"
    and "field data ''order_status'' = JStr ''PAID''" and "field data ''order_id'' = JStr oid"
    and "field (field (field b ''data'') ''order'') ''order_id'' = JStr oid"
    and "field (field (field b ''data'') ''order'') ''order_status'' = JStr ''PAID''"
  shows "is_confirmed (fst (check_payment_status cfg s q get_order mailer)) R1 \<and>
         is_confirmed (fst (cashfree_webhook cfg s b mailer')) R1"
proof -
  have inv: "cf_inv s" unfolding assms(1) by (rule inv_reachable)
  have key: "same_value_zero R1 R1" by (rule map_get_key[OF assms(2)])
  from linked_order_nonempty[OF inv assms(2,3)] have oid: "oid \<noteq> []" .
  have t1: "truthy (js_or (field data ''cf_order_id'') (field data ''order_id''))"
    using oid assms(9) by (simp add: js_or_def)
  have t2: "truthy (js_or (field (field (field b ''data'') ''order'') ''cf_order_id'') (JStr oid))"
    using oid by (simp add: js_or_def)
  have "is_confirmed (fst (check_payment_status cfg s q get_order mailer)) R1"
    unfolding poll_paid_state[where get_order = get_order and data = data, OF inv assms(2-8)]
    by (rule is_confirmed_confirmation[OF key t1])
  moreover have "is_confirmed (fst (cashfree_webhook cfg s b mailer')) R1"
    unfolding webhook_paid_state[OF inv assms(2,3,10,11)]
    by (rule is_confirmed_confirmation[OF key t2])
  ultimately show ?thesis by simp
qed

theorem paid_confirms_registration_witness:
  "demo_ordered = cf_run demo_config cf_init
     [Register demo_body 0xabc123456789 1712000,
      CreatePaymentOrder (JObj [(''referenceId'', demo_ref)]) 1712345 gateway_accepts] \<and>
   map_get (registrations demo_ordered) demo_ref = Some (demo_user\<lparr>orderId := demo_order\<rparr>) \<and>
   is_confirmed (fst (check_payment_status demo_config demo_ordered
                        (JObj [(''orderId'', demo_order)]) gateway_paid accept_all)) demo_ref \<and>
   is_confirmed (fst (cashfree_webhook demo_config demo_ordered paid_webhook accept_all)) demo_ref"
proof -
  have run: "demo_ordered = cf_run demo_config cf_init
     [Register demo_body 0xabc123456789 1712000,
      CreatePaymentOrder (JObj [(''referenceId'', demo_ref)]) 1712345 gateway_accepts]"
    using demo_registered_run demo_ordered_run by (simp add: cf_run_def)
  have get: "map_get (registrations demo_ordered) demo_ref = Some (demo_user\<lparr>orderId := demo_order\<rparr>)"
    by (simp add: demo_ordered_def demo_ref_def)
  have ord: "orderId (demo_user\<lparr>orderId := demo_order\<rparr>) = JStr ''ORDER_abc123456789_1712345''"
    by (simp add: demo_order_def)
  from paid_confirms_registration[OF run get ord, of "JObj [(''orderId'', demo_order)]"
      gateway_paid _ paid_webhook accept_all accept_all]
  show ?thesis using run get
    by (simp add: demo_order_def demo_config_def env_truthy_def gateway_paid_def paid_webhook_def)
qed

section \<open>Repeating a confirmation\<close>




lemma order_data_updated:
  "order_data k ref (r\<lparr>orderId := x\<rparr>) oid = order_data k ref r oid"
  by (simp add: order_data_def)

lemma create_order_state:
  assumes "map_get (registrations s) R1 = Some r"
    and "field b ''referenceId'' = R1" and "truthy R1" and "to_str R1 = Some ref"
    and "env_truthy (CASHFREE_APP_ID cfg)" and "env_truthy (CASHFREE_SECRET_KEY cfg)"
    and "post_orders (order_data R1 ref r (JStr (new_order_id ref now))) = Inr data"
    and "\<not> nullish data"
  shows "create_payment_order cfg s b now post_orders =
     (s\<lparr>registrations := map_set (registrations s) R1 (r\<lparr>orderId := JStr (new_order_id ref now)\<rparr>)\<rparr>,
      json (JObj [(''success'', JBool True), (''orderId'', JStr (new_order_id ref now)),
                  (''paymentSessionId'', field data ''payment_session_id''),
                  (''orderToken'', field data ''order_token''),
                  (''appId'', env_val (CASHFREE_APP_ID cfg))]))"
proof -
  from assms(2,3) have "field b ''referenceId'' \<noteq> JUndefined" by auto
  then have "\<not> nullish b" using field_defined[of b "''referenceId''"] by simp
  with assms show ?thesis by (simp add: create_payment_order_def Let_def)
qed

lemma new_order_id_inj: "new_order_id k n = new_order_id k m \<Longrightarrow> n = m"
  by (simp add: new_order_id_def dec_inj)

section \<open>Creating a payment order\<close>

text \<open>
  C7 does not hold as stated. The order id is \<open>ORDER_<R1>_<Date.now()>\<close>: a second
  creation in the same millisecond, which the gateway of the sample run accepts, returns
  the same order id, and the record keeps only the latest order id, so after a later
  second creation the first order id finds no registration any more.
\<close>

theorem create_order_counterexample:
  "demo_ordered = cf_run demo_config cf_init
     [Register demo_body 0xabc123456789 1712000,
      CreatePaymentOrder (JObj [(''referenceId'', demo_ref)]) 1712345 gateway_accepts] \<and>
   map_get (registrations demo_ordered) demo_ref = Some (demo_user\<lparr>orderId := demo_order\<rparr>) \<and>
   field (body (snd (create_payment_order demo_config demo_ordered
                       (JObj [(''referenceId'', demo_ref)]) 1712345 gateway_accepts))) ''orderId''
     = demo_order \<and>
   field (body (snd (create_payment_order demo_config demo_ordered
                       (JObj [(''referenceId'', demo_ref)]) 1712999 gateway_accepts))) ''orderId''
     = JStr ''ORDER_abc123456789_1712999'' \<and>
   find_reference (registrations (fst (create_payment_order demo_config demo_ordered
                       (JObj [(''referenceId'', demo_ref)]) 1712999 gateway_accepts))) demo_order
     = JNull"
proof -
  have run: "demo_ordered = cf_run demo_config cf_init
     [Register demo_body 0xabc123456789 1712000,
      CreatePaymentOrder (JObj [(''referenceId'', demo_ref)]) 1712345 gateway_accepts]"
    using demo_registered_run demo_ordered_run by (simp add: cf_run_def)
  have rest: "map_get (registrations demo_ordered) demo_ref = Some (demo_user\<lparr>orderId := demo_order\<rparr>) \<and>
   field (body (snd (create_payment_order demo_config demo_ordered
                       (JObj [(''referenceId'', demo_ref)]) 1712345 gateway_accepts))) ''orderId''
     = demo_order \<and>
   field (body (snd (create_payment_order demo_config demo_ordered
                       (JObj [(''referenceId'', demo_ref)]) 1712999 gateway_accepts))) ''orderId''
     = JStr ''ORDER_abc123456789_1712999'' \<and>
   find_reference (registrations (fst (create_payment_order demo_config demo_ordered
                       (JObj [(''referenceId'', demo_ref)]) 1712999 gateway_accepts))) demo_order
     = JNull"
    by (simp add: Let_def create_payment_order_def demo_ordered_def demo_ref_def demo_user_def
        demo_order_def demo_config_def env_truthy_def gateway_accepts_def new_order_id_def
        json_def dec.simps digit_char_def hex_digits_def)
  from run rest show ?thesis by (rule conjI)
qed

text \<open>
  C7 as the code has it: in a reachable state with a registration stored under
  \<open>R1\<close> (a string, \<open>ref\<close> being its text), an order creation that the gateway
  accepts returns the order id \<open>ORDER_<R1>_<clock>\<close> and stores it as the record's
  \<open>orderId\<close>, and looking that
  order id up finds \<open>R1\<close>. A second creation for \<open>R1\<close> does the same with its own
  clock reading: the record is kept with the registrant's data, its \<open>orderId\<close> is
  replaced, the latest order id finds \<open>R1\<close>, and the two order ids differ when the two
  clock readings do.
\<close>

theorem create_order_links:
  assumes "s = cf_run cfg cf_init es"
    and "map_get (registrations s) R1 = Some r"
    and "field b ''referenceId'' = R1" and "to_str R1 = Some ref"
    and "env_truthy (CASHFREE_APP_ID cfg)" and "env_truthy (CASHFREE_SECRET_KEY cfg)"
    and "post_orders (order_data R1 ref r (JStr (new_order_id ref now))) = Inr data"
    and "\<not> nullish data"
    and "post_orders' (order_data R1 ref r (JStr (new_order_id ref now'))) = Inr data'"
    and "\<not> nullish data'"
    and "s1 = fst (create_payment_order cfg s b now post_orders)"
    and "s2 = fst (create_payment_order cfg s1 b now' post_orders')"
  shows "field (body (snd (create_payment_order cfg s b now post_orders))) ''orderId''
           = JStr (new_order_id ref now) \<and>
         map_get (registrations s1) R1 = Some (r\<lparr>orderId := JStr (new_order_id ref now)\<rparr>) \<and>
         find_reference (registrations s1) (JStr (new_order_id ref now)) = R1 \<and>
         field (body (snd (create_payment_order cfg s1 b now' post_orders'))) ''orderId''
           = JStr (new_order_id ref now') \<and>
         map_get (registrations s2) R1 = Some (r\<lparr>orderId := JStr (new_order_id ref now')\<rparr>) \<and>
         find_reference (registrations s2) (JStr (new_order_id ref now')) = R1 \<and>
         (now' \<noteq> now \<longrightarrow> new_order_id ref now' \<noteq> new_order_id ref now)"
proof -
  have inv: "cf_inv s" unfolding assms(1) by (rule inv_reachable)
  have key: "same_value_zero R1 R1" by (rule map_get_key[OF assms(2)])
  from linked_key[OF inv assms(2)] have R1: "truthy R1" by auto
  let ?r1 = "r\<lparr>orderId := JStr (new_order_id ref now)\<rparr>"
  let ?r2 = "r\<lparr>orderId := JStr (new_order_id ref now')\<rparr>"
  note c1 = create_order_state[OF assms(2,3) R1 assms(4-6), where post_orders = post_orders
      and now = now and data = data, OF assms(7,8)]
  have inv1: "cf_inv s1" unfolding assms(11) by (rule inv_create_payment_order[OF inv])
  have g1: "map_get (registrations s1) R1 = Some ?r1"
    unfolding assms(11) c1 using key by (simp add: map_get_map_set)
  have f1: "find_reference (registrations s1) (JStr (new_order_id ref now)) = R1"
    by (rule find_reference_linked[OF inv1 g1]) simp
  have p2: "post_orders' (order_data R1 ref ?r1 (JStr (new_order_id ref now'))) = Inr data'"
    using assms(9) by (simp add: order_data_updated)
  note c2 = create_order_state[OF g1 assms(3) R1 assms(4-6), where post_orders = post_orders'
      and now = now' and data = data', OF p2 assms(10)]
  have inv2: "cf_inv s2" unfolding assms(12) by (rule inv_create_payment_order[OF inv1])
  have g2: "map_get (registrations s2) R1 = Some ?r2"
    unfolding assms(12) c2 using key by (simp add: map_get_map_set)
  have f2: "find_reference (registrations s2) (JStr (new_order_id ref now')) = R1"
    by (rule find_reference_linked[OF inv2 g2]) simp
  have r1: "field (body (snd (create_payment_order cfg s b now post_orders))) ''orderId''
           = JStr (new_order_id ref now)"
    unfolding c1 by (simp add: json_def)
  have r2: "field (body (snd (create_payment_order cfg s1 b now' post_orders'))) ''orderId''
           = JStr (new_order_id ref now')"
    unfolding c2 by (simp add: json_def)
  have d: "now' \<noteq> now \<longrightarrow> new_order_id ref now' \<noteq> new_order_id ref now"
    using new_order_id_inj[of ref now' now] by blast
  from r1 g1 f1 r2 g2 f2 d show ?thesis by simp
qed

theorem create_order_links_witness:
  "demo_registered = cf_run demo_config cf_init [Register demo_body 0xabc123456789 1712000] \<and>
   map_get (registrations demo_registered) demo_ref = Some demo_user \<and>
   to_str demo_ref = Some ''abc123456789'' \<and>
   field (body (snd (create_payment_order demo_config demo_registered
                       (JObj [(''referenceId'', demo_ref)]) 1712345 gateway_accepts))) ''orderId''
     = demo_order \<and>
   find_reference (registrations (fst (create_payment_order demo_config demo_registered
                       (JObj [(''referenceId'', demo_ref)]) 1712345 gateway_accepts))) demo_order
     = demo_ref \<and>
   new_order_id ''abc123456789'' 1712999 \<noteq> new_order_id ''abc123456789'' 1712345"
proof -
  have get: "map_get (registrations demo_registered) demo_ref = Some demo_user"
    by (simp add: demo_registered_def demo_ref_def)
  have ref: "field (JObj [(''referenceId'', demo_ref)]) ''referenceId'' = demo_ref" by simp
  have pr: "to_str demo_ref = Some ''abc123456789''" by (simp add: demo_ref_def)
  have cfg: "env_truthy (CASHFREE_APP_ID demo_config)" "env_truthy (CASHFREE_SECRET_KEY demo_config)"
    by (simp_all add: demo_config_def env_truthy_def)
  have gw: "gateway_accepts (order_data demo_ref ''abc123456789'' demo_user
                (JStr (new_order_id ''abc123456789'' n))) =
      Inr (JObj [(''payment_session_id'', JStr ''session_1''), (''order_token'', JStr ''token_1'')])"
    for n by (simp add: gateway_accepts_def)
  have nn: "\<not> nullish (JObj [(''payment_session_id'', JStr ''session_1''),
                              (''order_token'', JStr ''token_1'')])" by simp
  have id: "JStr (new_order_id ''abc123456789'' 1712345) = demo_order"
    by (simp add: new_order_id_def demo_order_def dec.simps digit_char_def hex_digits_def)
  from create_order_links[where post_orders = gateway_accepts
      and post_orders' = gateway_accepts and now = 1712345 and now' = 1712999
      and cfg = demo_config,
      OF demo_registered_run[symmetric] get ref pr cfg gw[of 1712345] nn
      gw[of 1712999] nn refl refl]
  show ?thesis using get pr demo_registered_run unfolding id by simp
qed

lemma hex12_inj:
  assumes "hex12 a = hex12 b"
  shows "a = b"
proof (rule bit_word_eqI)
  fix n assume "n < LENGTH(48)"
  then have n: "n div 4 < 12" by simp
  let ?k = "4 * (n div 4)"
  from assms have "\<forall>i\<in>set (rev [0..<12]).
      digit_char (unat (drop_bit (4 * i) a) mod 16) = digit_char (unat (drop_bit (4 * i) b) mod 16)"
    unfolding hex12_def by (simp only: map_eq_conv)
  with n have "digit_char (unat (drop_bit ?k a) mod 16) = digit_char (unat (drop_bit ?k b) mod 16)"
    by simp
  then have "unat (drop_bit ?k a) mod 16 = unat (drop_bit ?k b) mod 16"
    by (intro digit_char_inj) simp_all
  moreover have "unat (take_bit 4 w) = unat w mod 16" for w :: "48 word"
  proof -
    have "unat (take_bit 4 w) = take_bit 4 (unat w)" by (rule unsigned_take_bit_eq)
    also have "\<dots> = unat w mod 16" by (simp add: take_bit_eq_mod)
    finally show ?thesis .
  qed
  ultimately have "unat (take_bit 4 (drop_bit ?k a)) = unat (take_bit 4 (drop_bit ?k b))"
    by (simp only:)
  then have "take_bit 4 (drop_bit ?k a) = take_bit 4 (drop_bit ?k b)"
    by (simp only: word_unat_eq_iff)
  then have "bit (take_bit 4 (drop_bit ?k a)) (n mod 4) = bit (take_bit 4 (drop_bit ?k b)) (n mod 4)"
    by simp
  then show "bit a n = bit b n"
    by (simp add: bit_take_bit_iff bit_drop_bit_eq)
qed

lemma keys_map_set: "fst ` set (map_set m k v) \<subseteq> insert k (fst ` set m)"
  using set_map_set[of m k v] by force

lemma keys_register:
  "fst ` set (registrations (fst (register s b rnd now)))
     \<subseteq> insert (JStr (hex12 rnd)) (fst ` set (registrations s))"
  using keys_map_set[of "registrations s" "JStr (hex12 rnd)"]
  by (auto simp: register_def Let_def)

lemma keys_map_set_present:
  "map_get m k = Some u \<Longrightarrow> fst ` set (map_set m k v) \<subseteq> fst ` set m"
  using keys_map_set[of m k v] map_get_mem[of m k u] by force

lemma keys_create_payment_order:
  "fst ` set (registrations (fst (create_payment_order cfg s b now gw)))
     \<subseteq> fst ` set (registrations s)"
  by (simp add: create_payment_order_def Let_def keys_map_set_present
      split: option.split sum.split)

lemma keys_check_payment_status:
  "fst ` set (registrations (fst (check_payment_status cfg s q gw mailer)))
     \<subseteq> fst ` set (registrations s)"
  by (simp add: check_payment_status_def Let_def keys_map_set_present send_case
      split: option.split sum.split)

lemma keys_confirm_payment:
  "fst ` set (registrations (fst (confirm_payment cfg s b mailer)))
     \<subseteq> fst ` set (registrations s)"
  by (simp add: confirm_payment_def Let_def keys_map_set_present send_case
      split: option.split sum.split)

lemma keys_cashfree_webhook:
  "fst ` set (registrations (fst (cashfree_webhook cfg s b mailer)))
     \<subseteq> fst ` set (registrations s)"
  by (simp add: cashfree_webhook_def Let_def keys_map_set_present send_case
      split: option.split sum.split)

lemma keys_step:
  "fst ` set (registrations (cf_step cfg s e))
     \<subseteq> fst ` set (registrations s) \<union> (\<lambda>w. JStr (hex12 w)) ` set (draws [e])"
proof (cases e)
  case (Register b rnd now)
  then show ?thesis using keys_register[of s b rnd now] by auto
next
  case (CreatePaymentOrder b now gw)
  then show ?thesis using keys_create_payment_order[of cfg s b now gw] by auto
next
  case (CheckPaymentStatus q gw mailer)
  then show ?thesis using keys_check_payment_status[of cfg s q gw mailer] by auto
next
  case (ConfirmPayment b mailer)
  then show ?thesis using keys_confirm_payment[of cfg s b mailer] by auto
next
  case (CashfreeWebhook b mailer)
  then show ?thesis using keys_cashfree_webhook[of cfg s b mailer] by auto
qed

lemma keys_run:
  "fst ` set (registrations (cf_run cfg s es))
     \<subseteq> fst ` set (registrations s) \<union> (\<lambda>w. JStr (hex12 w)) ` set (draws es)"
proof (induction es arbitrary: s)
  case Nil
  then show ?case by (simp add: cf_run_def)
next
  case (Cons e es)
  let ?f = "\<lambda>w. JStr (hex12 w)"
  have run: "cf_run cfg s (e # es) = cf_run cfg (cf_step cfg s e) es" by (simp add: cf_run_def)
  have d: "set (draws (e # es)) = set (draws [e]) \<union> set (draws es)" by simp
  from Cons.IH[of "cf_step cfg s e"] keys_step[of cfg s e]
  have "fst ` set (registrations (cf_run cfg (cf_step cfg s e) es))
          \<subseteq> fst ` set (registrations s) \<union> (?f ` set (draws [e]) \<union> ?f ` set (draws es))"
    by blast
  then show ?case by (simp only: run d image_Un)
qed

lemma fresh_draw_unissued:
  assumes "rnd \<notin> set (draws es)"
  shows "map_get (registrations (cf_run cfg cf_init es)) (JStr (hex12 rnd)) = None"
proof (rule ccontr)
  assume "map_get (registrations (cf_run cfg cf_init es)) (JStr (hex12 rnd)) \<noteq> None"
  then obtain r where "map_get (registrations (cf_run cfg cf_init es)) (JStr (hex12 rnd)) = Some r"
    by auto
  from map_get_mem[OF this]
  have "JStr (hex12 rnd) \<in> fst ` set (registrations (cf_run cfg cf_init es))" by force
  with keys_run[of cfg cf_init es] obtain w where "w \<in> set (draws es)" "hex12 rnd = hex12 w"
    by (auto simp: cf_init_def)
  with hex12_inj[of rnd w] assms show False by simp
qed

section \<open>Registering\<close>

text \<open>
  C5 does not hold as stated: the identifier is the hexadecimal form of six random
  bytes and the store is not asked whether it is taken. In the sample run the
  identifier \<open>abc123456789\<close> has been issued and its registration is stored; a
  second, valid register request that draws the same bytes is answered with the same
  identifier.
\<close>

theorem register_reissue_counterexample:
  "demo_paid = cf_run demo_config cf_init
     [Register demo_body 0xabc123456789 1712000,
      CreatePaymentOrder (JObj [(''referenceId'', demo_ref)]) 1712345 gateway_accepts,
      CheckPaymentStatus (JObj [(''orderId'', demo_order)]) gateway_paid accept_all] \<and>
   field (body (snd (register cf_init demo_body 0xabc123456789 1712000))) ''referenceId''
     = demo_ref \<and>
   map_get (registrations demo_paid) demo_ref = Some demo_paid_user \<and>
   field (body (snd (register demo_paid second_body 0xabc123456789 1713000))) ''referenceId''
     = demo_ref"
proof -
  have "field (body (snd (register cf_init demo_body 0xabc123456789 1712000))) ''referenceId''
     = demo_ref"
    by (simp add: Let_def register_def demo_body_def demo_ref_def json_def hex12_def
        digit_char_def hex_digits_def upt_rec drop_bit_eq_div unat_div)
  moreover have "map_get (registrations demo_paid) demo_ref = Some demo_paid_user"
    by (simp add: demo_paid_def demo_ref_def)
  moreover have "field (body (snd (register demo_paid second_body 0xabc123456789 1713000)))
      ''referenceId'' = demo_ref"
    by (simp add: Let_def register_def second_body_def demo_ref_def json_def hex12_def
        digit_char_def hex_digits_def upt_rec drop_bit_eq_div unat_div)
  ultimately show ?thesis using demo_reachable by simp
qed

text \<open>
  C5 as the code has it: in a reachable state, a register request whose \<open>fullName\<close>,
  \<open>email\<close> and \<open>phone\<close> are all truthy is answered 200 with the identifier
  \<open>hex12 rnd\<close> of the six random bytes drawn for it, and afterwards the store holds
  under that identifier a record with the request's data and \<open>paymentConfirmed\<close>
  false. The identifier is new to the store whenever the bytes differ from those drawn
  by the earlier register requests.
\<close>

theorem register_issues_identifier:
  assumes "s = cf_run cfg cf_init es"
    and "\<not> nullish b"
    and "truthy (field b ''fullName'')" and "truthy (field b ''email'')"
    and "truthy (field b ''phone'')"
  shows "status (snd (register s b rnd now)) = 200 \<and>
         field (body (snd (register s b rnd now))) ''referenceId'' = JStr (hex12 rnd) \<and>
         map_get (registrations (fst (register s b rnd now))) (JStr (hex12 rnd)) =
           Some \<lparr>fullName = field b ''fullName'', email = field b ''email'',
                 phone = field b ''phone'', timestamp = now, paymentConfirmed = False,
                 orderId = JUndefined, transactionId = JUndefined\<rparr> \<and>
         (rnd \<notin> set (draws es) \<longrightarrow> map_get (registrations s) (JStr (hex12 rnd)) = None)"
proof -
  have "rnd \<notin> set (draws es) \<longrightarrow> map_get (registrations s) (JStr (hex12 rnd)) = None"
    unfolding assms(1) using fresh_draw_unissued[of rnd es cfg] by blast
  with assms(2-5) show ?thesis
    by (simp add: register_def Let_def json_def map_get_map_set)
qed

theorem register_issues_identifier_witness:
  "demo_registered = cf_run demo_config cf_init [Register demo_body 0xabc123456789 1712000] \<and>
   (1 :: 48 word) \<notin> set (draws [Register demo_body 0xabc123456789 1712000]) \<and>
   map_get (registrations demo_registered) (JStr ''000000000001'') = None \<and>
   field (body (snd (register demo_registered second_body 1 1713000))) ''referenceId''
     = JStr ''000000000001'' \<and>
   map_get (registrations (fst (register demo_registered second_body 1 1713000)))
       (JStr ''000000000001'') =
     Some \<lparr>fullName = JStr ''B'', email = JStr ''b@x.com'', phone = JStr ''2'',
           timestamp = 1713000, paymentConfirmed = False, orderId = JUndefined,
           transactionId = JUndefined\<rparr>"
proof -
  have h: "hex12 1 = ''000000000001''"
    by (simp add: hex12_def digit_char_def hex_digits_def upt_rec drop_bit_eq_div unat_div)
  have d: "(1 :: 48 word) \<notin> set (draws [Register demo_body 0xabc123456789 1712000])" by simp
  from register_issues_identifier[OF demo_registered_run[symmetric], of second_body 1 1713000]
  show ?thesis using demo_registered_run d unfolding h
    by (simp add: second_body_def)
qed


















section \<open>The confirmed set and the flags\<close>




end
